theory Spec2Isabelle
  imports Complex_Main "HOL-Library.Sublist" "HOL-Library.Product_Lexorder"
begin

section \<open>Python strings\<close>

text \<open>
  A Python \<open>str\<close> is a sequence of Unicode code points, so a string is a list of
  code-point numbers. The vocabulary of the program is Cyrillic; each literal is written
  by its code points, with the transliterated word in its name.
\<close>

type_synonym ustr = "nat list"

text \<open>
  \<open>str.isspace\<close>, which is also the class \<open>\s\<close> of \<open>re\<close> on \<open>str\<close> patterns and the
  separator set of \<open>str.split()\<close> and \<open>str.strip()\<close>: the 29 code points of CPython 3.11.
\<close>

definition py_isspace :: "nat \<Rightarrow> bool" where
  "py_isspace c \<longleftrightarrow>
     (9 \<le> c \<and> c \<le> 13) \<or> (28 \<le> c \<and> c \<le> 32) \<or> c = 133 \<or> c = 160 \<or> c = 5760 \<or>
     (8192 \<le> c \<and> c \<le> 8202) \<or> c = 8232 \<or> c = 8233 \<or> c = 8239 \<or> c = 8287 \<or> c = 12288"

text \<open>
  The class \<open>\d\<close> of \<open>re\<close> on \<open>str\<close> patterns: the decimal digits (category Nd) of the
  Unicode database of CPython 3.11, as closed ranges.
\<close>

definition nd_ranges :: "(nat \<times> nat) list" where
  "nd_ranges =
     [(48, 57), (1632, 1641), (1776, 1785), (1984, 1993), (2406, 2415), (2534, 2543),
      (2662, 2671), (2790, 2799), (2918, 2927), (3046, 3055), (3174, 3183), (3302, 3311),
      (3430, 3439), (3558, 3567), (3664, 3673), (3792, 3801), (3872, 3881), (4160, 4169),
      (4240, 4249), (6112, 6121), (6160, 6169), (6470, 6479), (6608, 6617), (6784, 6793),
      (6800, 6809), (6992, 7001), (7088, 7097), (7232, 7241), (7248, 7257), (42528, 42537),
      (43216, 43225), (43264, 43273), (43472, 43481), (43504, 43513), (43600, 43609),
      (44016, 44025), (65296, 65305), (66720, 66729), (68912, 68921), (69734, 69743),
      (69872, 69881), (69942, 69951), (70096, 70105), (70384, 70393), (70736, 70745),
      (70864, 70873), (71248, 71257), (71360, 71369), (71472, 71481), (71904, 71913),
      (72016, 72025), (72784, 72793), (73040, 73049), (73120, 73129), (92768, 92777),
      (92864, 92873), (93008, 93017), (120782, 120831), (123200, 123209),
      (123632, 123641), (125264, 125273), (130032, 130041)]"

definition py_isdigit :: "nat \<Rightarrow> bool" where
  "py_isdigit c \<longleftrightarrow> list_ex (\<lambda>(lo, hi). lo \<le> c \<and> c \<le> hi) nd_ranges"

text \<open>
  \<open>str.lower()\<close> maps a string code point by code point with the lower-case mapping of the
  Unicode database of CPython 3.11 (Unicode 14), with two exceptions: the capital I with
  dot above, U+0130, becomes the two code points U+0069 U+0307, and the capital sigma,
  U+03A3, becomes the final sigma U+03C2 or the sigma U+03C3 by its context.

  The table of the simple lower-case mapping: an entry \<open>(lo, hi, stride, t)\<close> sends every
  \<open>stride\<close>-th code point \<open>c\<close> of \<open>lo..hi\<close> to \<open>t + (c - lo)\<close>. Code points in no entry are
  their own lower case.
\<close>

definition lower_ranges :: "(nat \<times> nat \<times> nat \<times> nat) list" where
  "lower_ranges =
     [(65, 90, 1, 97), (192, 214, 1, 224), (216, 222, 1, 248), (256, 302, 2, 257),
      (304, 304, 1, 105), (306, 310, 2, 307), (313, 327, 2, 314), (330, 374, 2, 331),
      (376, 376, 1, 255), (377, 381, 2, 378), (385, 385, 1, 595), (386, 388, 2, 387),
      (390, 390, 1, 596), (391, 391, 1, 392), (393, 394, 1, 598), (395, 395, 1, 396),
      (398, 398, 1, 477), (399, 399, 1, 601), (400, 400, 1, 603), (401, 401, 1, 402),
      (403, 403, 1, 608), (404, 404, 1, 611), (406, 406, 1, 617), (407, 407, 1, 616),
      (408, 408, 1, 409), (412, 412, 1, 623), (413, 413, 1, 626), (415, 415, 1, 629),
      (416, 420, 2, 417), (422, 422, 1, 640), (423, 423, 1, 424), (425, 425, 1, 643),
      (428, 428, 1, 429), (430, 430, 1, 648), (431, 431, 1, 432), (433, 434, 1, 650),
      (435, 437, 2, 436), (439, 439, 1, 658), (440, 440, 1, 441), (444, 444, 1, 445),
      (452, 452, 1, 454), (453, 453, 1, 454), (455, 455, 1, 457), (456, 456, 1, 457),
      (458, 458, 1, 460), (459, 475, 2, 460), (478, 494, 2, 479), (497, 497, 1, 499),
      (498, 500, 2, 499), (502, 502, 1, 405), (503, 503, 1, 447), (504, 542, 2, 505),
      (544, 544, 1, 414), (546, 562, 2, 547), (570, 570, 1, 11365), (571, 571, 1, 572),
      (573, 573, 1, 410), (574, 574, 1, 11366), (577, 577, 1, 578), (579, 579, 1, 384),
      (580, 580, 1, 649), (581, 581, 1, 652), (582, 590, 2, 583), (880, 882, 2, 881),
      (886, 886, 1, 887), (895, 895, 1, 1011), (902, 902, 1, 940), (904, 906, 1, 941),
      (908, 908, 1, 972), (910, 911, 1, 973), (913, 929, 1, 945), (931, 939, 1, 963),
      (975, 975, 1, 983), (984, 1006, 2, 985), (1012, 1012, 1, 952), (1015, 1015, 1, 1016),
      (1017, 1017, 1, 1010), (1018, 1018, 1, 1019), (1021, 1023, 1, 891), (1024, 1039, 1, 1104),
      (1040, 1071, 1, 1072), (1120, 1152, 2, 1121), (1162, 1214, 2, 1163),
      (1216, 1216, 1, 1231), (1217, 1229, 2, 1218), (1232, 1326, 2, 1233),
      (1329, 1366, 1, 1377), (4256, 4293, 1, 11520), (4295, 4295, 1, 11559),
      (4301, 4301, 1, 11565), (5024, 5103, 1, 43888), (5104, 5109, 1, 5112),
      (7312, 7354, 1, 4304), (7357, 7359, 1, 4349), (7680, 7828, 2, 7681), (7838, 7838, 1, 223),
      (7840, 7934, 2, 7841), (7944, 7951, 1, 7936), (7960, 7965, 1, 7952),
      (7976, 7983, 1, 7968), (7992, 7999, 1, 7984), (8008, 8013, 1, 8000),
      (8025, 8031, 2, 8017), (8040, 8047, 1, 8032), (8072, 8079, 1, 8064),
      (8088, 8095, 1, 8080), (8104, 8111, 1, 8096), (8120, 8121, 1, 8112),
      (8122, 8123, 1, 8048), (8124, 8124, 1, 8115), (8136, 8139, 1, 8050),
      (8140, 8140, 1, 8131), (8152, 8153, 1, 8144), (8154, 8155, 1, 8054),
      (8168, 8169, 1, 8160), (8170, 8171, 1, 8058), (8172, 8172, 1, 8165),
      (8184, 8185, 1, 8056), (8186, 8187, 1, 8060), (8188, 8188, 1, 8179), (8486, 8486, 1, 969),
      (8490, 8490, 1, 107), (8491, 8491, 1, 229), (8498, 8498, 1, 8526), (8544, 8559, 1, 8560),
      (8579, 8579, 1, 8580), (9398, 9423, 1, 9424), (11264, 11311, 1, 11312),
      (11360, 11360, 1, 11361), (11362, 11362, 1, 619), (11363, 11363, 1, 7549),
      (11364, 11364, 1, 637), (11367, 11371, 2, 11368), (11373, 11373, 1, 593),
      (11374, 11374, 1, 625), (11375, 11375, 1, 592), (11376, 11376, 1, 594),
      (11378, 11378, 1, 11379), (11381, 11381, 1, 11382), (11390, 11391, 1, 575),
      (11392, 11490, 2, 11393), (11499, 11501, 2, 11500), (11506, 11506, 1, 11507),
      (42560, 42604, 2, 42561), (42624, 42650, 2, 42625), (42786, 42798, 2, 42787),
      (42802, 42862, 2, 42803), (42873, 42875, 2, 42874), (42877, 42877, 1, 7545),
      (42878, 42886, 2, 42879), (42891, 42891, 1, 42892), (42893, 42893, 1, 613),
      (42896, 42898, 2, 42897), (42902, 42920, 2, 42903), (42922, 42922, 1, 614),
      (42923, 42923, 1, 604), (42924, 42924, 1, 609), (42925, 42925, 1, 620),
      (42926, 42926, 1, 618), (42928, 42928, 1, 670), (42929, 42929, 1, 647),
      (42930, 42930, 1, 669), (42931, 42931, 1, 43859), (42932, 42946, 2, 42933),
      (42948, 42948, 1, 42900), (42949, 42949, 1, 642), (42950, 42950, 1, 7566),
      (42951, 42953, 2, 42952), (42960, 42960, 1, 42961), (42966, 42968, 2, 42967),
      (42997, 42997, 1, 42998), (65313, 65338, 1, 65345), (66560, 66599, 1, 66600),
      (66736, 66771, 1, 66776), (66928, 66938, 1, 66967), (66940, 66954, 1, 66979),
      (66956, 66962, 1, 66995), (66964, 66965, 1, 67003), (68736, 68786, 1, 68800),
      (71840, 71871, 1, 71872), (93760, 93791, 1, 93792), (125184, 125217, 1, 125218)]"

text \<open>
  \<open>_PyUnicode_ToLowercase\<close>, which is also the lower case \<open>re\<close> compares with under
  \<open>IGNORECASE\<close>. Basic Latin and the Cyrillic letters U+0400 to U+045F, the alphabet of
  the program's data, are written out; the other code points go through the table.
\<close>

definition py_lower_cp :: "nat \<Rightarrow> nat" where
  "py_lower_cp c =
     (if c < 128 then (if 65 \<le> c \<and> c \<le> 90 then c + 32 else c)
      else if 1024 \<le> c \<and> c \<le> 1119
        then (if c \<le> 1039 then c + 80 else if c \<le> 1071 then c + 32 else c)
      else case find (\<lambda>(lo, hi, stride, t). lo \<le> c \<and> c \<le> hi \<and> (c - lo) mod stride = 0)
                  lower_ranges of
             None \<Rightarrow> c
           | Some (lo, hi, stride, t) \<Rightarrow> t + (c - lo))"

text \<open>
  The properties Cased and Case_Ignorable of the same database, as closed ranges. They
  decide the context of a capital sigma.
\<close>

definition cased_ranges :: "(nat \<times> nat) list" where
  "cased_ranges =
     [(65, 90), (97, 122), (170, 170), (181, 181), (186, 186), (192, 214), (216, 246),
      (248, 442), (444, 447), (452, 659), (661, 696), (704, 705), (736, 740), (837, 837),
      (880, 883), (886, 887), (890, 893), (895, 895), (902, 902), (904, 906), (908, 908),
      (910, 929), (931, 1013), (1015, 1153), (1162, 1327), (1329, 1366), (1376, 1416),
      (4256, 4293), (4295, 4295), (4301, 4301), (4304, 4346), (4349, 4351), (5024, 5109),
      (5112, 5117), (7296, 7304), (7312, 7354), (7357, 7359), (7424, 7615), (7680, 7957),
      (7960, 7965), (7968, 8005), (8008, 8013), (8016, 8023), (8025, 8025), (8027, 8027),
      (8029, 8029), (8031, 8061), (8064, 8116), (8118, 8124), (8126, 8126), (8130, 8132),
      (8134, 8140), (8144, 8147), (8150, 8155), (8160, 8172), (8178, 8180), (8182, 8188),
      (8305, 8305), (8319, 8319), (8336, 8348), (8450, 8450), (8455, 8455), (8458, 8467),
      (8469, 8469), (8473, 8477), (8484, 8484), (8486, 8486), (8488, 8488), (8490, 8493),
      (8495, 8500), (8505, 8505), (8508, 8511), (8517, 8521), (8526, 8526), (8544, 8575),
      (8579, 8580), (9398, 9449), (11264, 11492), (11499, 11502), (11506, 11507),
      (11520, 11557), (11559, 11559), (11565, 11565), (42560, 42605), (42624, 42653),
      (42786, 42887), (42891, 42894), (42896, 42954), (42960, 42961), (42963, 42963),
      (42965, 42969), (42997, 42998), (43000, 43002), (43824, 43866), (43868, 43880),
      (43888, 43967), (64256, 64262), (64275, 64279), (65313, 65338), (65345, 65370),
      (66560, 66639), (66736, 66771), (66776, 66811), (66928, 66938), (66940, 66954),
      (66956, 66962), (66964, 66965), (66967, 66977), (66979, 66993), (66995, 67001),
      (67003, 67004), (67456, 67456), (67459, 67461), (67463, 67504), (67506, 67514),
      (68736, 68786), (68800, 68850), (71840, 71903), (93760, 93823), (119808, 119892),
      (119894, 119964), (119966, 119967), (119970, 119970), (119973, 119974), (119977, 119980),
      (119982, 119993), (119995, 119995), (119997, 120003), (120005, 120069), (120071, 120074),
      (120077, 120084), (120086, 120092), (120094, 120121), (120123, 120126), (120128, 120132),
      (120134, 120134), (120138, 120144), (120146, 120485), (120488, 120512), (120514, 120538),
      (120540, 120570), (120572, 120596), (120598, 120628), (120630, 120654), (120656, 120686),
      (120688, 120712), (120714, 120744), (120746, 120770), (120772, 120779), (122624, 122633),
      (122635, 122654), (125184, 125251), (127280, 127305), (127312, 127337), (127344, 127369)]"

definition case_ignorable_ranges :: "(nat \<times> nat) list" where
  "case_ignorable_ranges =
     [(39, 39), (46, 46), (58, 58), (94, 94), (96, 96), (168, 168), (173, 173), (175, 175),
      (180, 180), (183, 184), (688, 879), (884, 885), (890, 890), (900, 901), (903, 903),
      (1155, 1161), (1369, 1369), (1375, 1375), (1425, 1469), (1471, 1471), (1473, 1474),
      (1476, 1477), (1479, 1479), (1524, 1524), (1536, 1541), (1552, 1562), (1564, 1564),
      (1600, 1600), (1611, 1631), (1648, 1648), (1750, 1757), (1759, 1768), (1770, 1773),
      (1807, 1807), (1809, 1809), (1840, 1866), (1958, 1968), (2027, 2037), (2042, 2042),
      (2045, 2045), (2070, 2093), (2137, 2139), (2184, 2184), (2192, 2193), (2200, 2207),
      (2249, 2306), (2362, 2362), (2364, 2364), (2369, 2376), (2381, 2381), (2385, 2391),
      (2402, 2403), (2417, 2417), (2433, 2433), (2492, 2492), (2497, 2500), (2509, 2509),
      (2530, 2531), (2558, 2558), (2561, 2562), (2620, 2620), (2625, 2626), (2631, 2632),
      (2635, 2637), (2641, 2641), (2672, 2673), (2677, 2677), (2689, 2690), (2748, 2748),
      (2753, 2757), (2759, 2760), (2765, 2765), (2786, 2787), (2810, 2815), (2817, 2817),
      (2876, 2876), (2879, 2879), (2881, 2884), (2893, 2893), (2901, 2902), (2914, 2915),
      (2946, 2946), (3008, 3008), (3021, 3021), (3072, 3072), (3076, 3076), (3132, 3132),
      (3134, 3136), (3142, 3144), (3146, 3149), (3157, 3158), (3170, 3171), (3201, 3201),
      (3260, 3260), (3263, 3263), (3270, 3270), (3276, 3277), (3298, 3299), (3328, 3329),
      (3387, 3388), (3393, 3396), (3405, 3405), (3426, 3427), (3457, 3457), (3530, 3530),
      (3538, 3540), (3542, 3542), (3633, 3633), (3636, 3642), (3654, 3662), (3761, 3761),
      (3764, 3772), (3782, 3782), (3784, 3789), (3864, 3865), (3893, 3893), (3895, 3895),
      (3897, 3897), (3953, 3966), (3968, 3972), (3974, 3975), (3981, 3991), (3993, 4028),
      (4038, 4038), (4141, 4144), (4146, 4151), (4153, 4154), (4157, 4158), (4184, 4185),
      (4190, 4192), (4209, 4212), (4226, 4226), (4229, 4230), (4237, 4237), (4253, 4253),
      (4348, 4348), (4957, 4959), (5906, 5908), (5938, 5939), (5970, 5971), (6002, 6003),
      (6068, 6069), (6071, 6077), (6086, 6086), (6089, 6099), (6103, 6103), (6109, 6109),
      (6155, 6159), (6211, 6211), (6277, 6278), (6313, 6313), (6432, 6434), (6439, 6440),
      (6450, 6450), (6457, 6459), (6679, 6680), (6683, 6683), (6742, 6742), (6744, 6750),
      (6752, 6752), (6754, 6754), (6757, 6764), (6771, 6780), (6783, 6783), (6823, 6823),
      (6832, 6862), (6912, 6915), (6964, 6964), (6966, 6970), (6972, 6972), (6978, 6978),
      (7019, 7027), (7040, 7041), (7074, 7077), (7080, 7081), (7083, 7085), (7142, 7142),
      (7144, 7145), (7149, 7149), (7151, 7153), (7212, 7219), (7222, 7223), (7288, 7293),
      (7376, 7378), (7380, 7392), (7394, 7400), (7405, 7405), (7412, 7412), (7416, 7417),
      (7468, 7530), (7544, 7544), (7579, 7679), (8125, 8125), (8127, 8129), (8141, 8143),
      (8157, 8159), (8173, 8175), (8189, 8190), (8203, 8207), (8216, 8217), (8228, 8228),
      (8231, 8231), (8234, 8238), (8288, 8292), (8294, 8303), (8305, 8305), (8319, 8319),
      (8336, 8348), (8400, 8432), (11388, 11389), (11503, 11505), (11631, 11631),
      (11647, 11647), (11744, 11775), (11823, 11823), (12293, 12293), (12330, 12333),
      (12337, 12341), (12347, 12347), (12441, 12446), (12540, 12542), (40981, 40981),
      (42232, 42237), (42508, 42508), (42607, 42610), (42612, 42621), (42623, 42623),
      (42652, 42655), (42736, 42737), (42752, 42785), (42864, 42864), (42888, 42890),
      (42994, 42996), (43000, 43001), (43010, 43010), (43014, 43014), (43019, 43019),
      (43045, 43046), (43052, 43052), (43204, 43205), (43232, 43249), (43263, 43263),
      (43302, 43309), (43335, 43345), (43392, 43394), (43443, 43443), (43446, 43449),
      (43452, 43453), (43471, 43471), (43493, 43494), (43561, 43566), (43569, 43570),
      (43573, 43574), (43587, 43587), (43596, 43596), (43632, 43632), (43644, 43644),
      (43696, 43696), (43698, 43700), (43703, 43704), (43710, 43711), (43713, 43713),
      (43741, 43741), (43756, 43757), (43763, 43764), (43766, 43766), (43867, 43871),
      (43881, 43883), (44005, 44005), (44008, 44008), (44013, 44013), (64286, 64286),
      (64434, 64450), (65024, 65039), (65043, 65043), (65056, 65071), (65106, 65106),
      (65109, 65109), (65279, 65279), (65287, 65287), (65294, 65294), (65306, 65306),
      (65342, 65342), (65344, 65344), (65392, 65392), (65438, 65439), (65507, 65507),
      (65529, 65531), (66045, 66045), (66272, 66272), (66422, 66426), (67456, 67461),
      (67463, 67504), (67506, 67514), (68097, 68099), (68101, 68102), (68108, 68111),
      (68152, 68154), (68159, 68159), (68325, 68326), (68900, 68903), (69291, 69292),
      (69446, 69456), (69506, 69509), (69633, 69633), (69688, 69702), (69744, 69744),
      (69747, 69748), (69759, 69761), (69811, 69814), (69817, 69818), (69821, 69821),
      (69826, 69826), (69837, 69837), (69888, 69890), (69927, 69931), (69933, 69940),
      (70003, 70003), (70016, 70017), (70070, 70078), (70089, 70092), (70095, 70095),
      (70191, 70193), (70196, 70196), (70198, 70199), (70206, 70206), (70367, 70367),
      (70371, 70378), (70400, 70401), (70459, 70460), (70464, 70464), (70502, 70508),
      (70512, 70516), (70712, 70719), (70722, 70724), (70726, 70726), (70750, 70750),
      (70835, 70840), (70842, 70842), (70847, 70848), (70850, 70851), (71090, 71093),
      (71100, 71101), (71103, 71104), (71132, 71133), (71219, 71226), (71229, 71229),
      (71231, 71232), (71339, 71339), (71341, 71341), (71344, 71349), (71351, 71351),
      (71453, 71455), (71458, 71461), (71463, 71467), (71727, 71735), (71737, 71738),
      (71995, 71996), (71998, 71998), (72003, 72003), (72148, 72151), (72154, 72155),
      (72160, 72160), (72193, 72202), (72243, 72248), (72251, 72254), (72263, 72263),
      (72273, 72278), (72281, 72283), (72330, 72342), (72344, 72345), (72752, 72758),
      (72760, 72765), (72767, 72767), (72850, 72871), (72874, 72880), (72882, 72883),
      (72885, 72886), (73009, 73014), (73018, 73018), (73020, 73021), (73023, 73029),
      (73031, 73031), (73104, 73105), (73109, 73109), (73111, 73111), (73459, 73460),
      (78896, 78904), (92912, 92916), (92976, 92982), (92992, 92995), (94031, 94031),
      (94095, 94111), (94176, 94177), (94179, 94180), (110576, 110579), (110581, 110587),
      (110589, 110590), (113821, 113822), (113824, 113827), (118528, 118573), (118576, 118598),
      (119143, 119145), (119155, 119170), (119173, 119179), (119210, 119213), (119362, 119364),
      (121344, 121398), (121403, 121452), (121461, 121461), (121476, 121476), (121499, 121503),
      (121505, 121519), (122880, 122886), (122888, 122904), (122907, 122913), (122915, 122916),
      (122918, 122922), (123184, 123197), (123566, 123566), (123628, 123631), (125136, 125142),
      (125252, 125259), (127995, 127999), (917505, 917505), (917536, 917631), (917760, 917999)]"

definition py_cased :: "nat \<Rightarrow> bool" where
  "py_cased c \<longleftrightarrow> list_ex (\<lambda>(lo, hi). lo \<le> c \<and> c \<le> hi) cased_ranges"

definition py_case_ignorable :: "nat \<Rightarrow> bool" where
  "py_case_ignorable c \<longleftrightarrow> list_ex (\<lambda>(lo, hi). lo \<le> c \<and> c \<le> hi) case_ignorable_ranges"

text \<open>
  \<open>handle_capital_sigma\<close>: a capital sigma is final when the nearest code point before it
  that is not case-ignorable is cased, and the nearest one after it that is not
  case-ignorable, if there is one, is not cased. \<open>pre\<close> is the text before the sigma,
  nearest code point first; \<open>post\<close> is the text after it.
\<close>

definition final_sigma :: "ustr \<Rightarrow> ustr \<Rightarrow> bool" where
  "final_sigma pre post \<longleftrightarrow>
     (case dropWhile py_case_ignorable pre of [] \<Rightarrow> False | c # cs \<Rightarrow> py_cased c) \<and>
     (case dropWhile py_case_ignorable post of [] \<Rightarrow> True | c # cs \<Rightarrow> \<not> py_cased c)"

text \<open>\<open>do_lower\<close>: the scan over the string, with the text already passed in \<open>pre\<close>.\<close>

fun lower_scan :: "ustr \<Rightarrow> ustr \<Rightarrow> ustr" where
  "lower_scan pre [] = []"
| "lower_scan pre (c # cs) =
     (if c = 931 then [if final_sigma pre cs then 962 else 963]
      else if c = 304 then [105, 775]
      else [py_lower_cp c]) @ lower_scan (c # pre) cs"

definition py_lower :: "ustr \<Rightarrow> ustr" where
  "py_lower s = lower_scan [] s"

text \<open>\<open>s.strip()\<close>: whitespace removed at both ends.\<close>

definition py_strip :: "ustr \<Rightarrow> ustr" where
  "py_strip s = rev (dropWhile py_isspace (rev (dropWhile py_isspace s)))"

text \<open>\<open>s.split()\<close>: the maximal runs of characters that are not whitespace.\<close>

function py_split :: "ustr \<Rightarrow> ustr list" where
  "py_split s =
     (let t = dropWhile py_isspace s
      in if t = [] then []
         else takeWhile (\<lambda>c. \<not> py_isspace c) t # py_split (dropWhile (\<lambda>c. \<not> py_isspace c) t))"
  by pat_completeness auto

lemma py_split_decreases:
  assumes "dropWhile py_isspace s \<noteq> []"
  shows "length (dropWhile (\<lambda>c. \<not> py_isspace c) (dropWhile py_isspace s)) < length s"
proof -
  obtain c cs where t: "dropWhile py_isspace s = c # cs"
    using assms by (cases "dropWhile py_isspace s") auto
  have "\<not> py_isspace c"
    using hd_dropWhile [of py_isspace s] t by simp
  then have "length (dropWhile (\<lambda>c. \<not> py_isspace c) (c # cs)) \<le> length cs"
    by (simp add: length_dropWhile_le)
  also have "length cs < length (dropWhile py_isspace s)"
    by (simp add: t)
  also have "\<dots> \<le> length s"
    by (rule length_dropWhile_le)
  finally show ?thesis by (simp add: t)
qed

termination py_split
  by (relation "measure length") (auto simp: py_split_decreases)

declare py_split.simps [simp del]

text \<open>\<open>sep.join(words)\<close>.\<close>

fun py_join :: "ustr \<Rightarrow> ustr list \<Rightarrow> ustr" where
  "py_join sep [] = []"
| "py_join sep [w] = w"
| "py_join sep (w # v # ws) = w @ sep @ py_join sep (v # ws)"

text \<open>\<open>' '.join(s.split())\<close>, the whitespace collapse both modules use.\<close>

definition collapse_spaces :: "ustr \<Rightarrow> ustr" where
  "collapse_spaces s = py_join [32] (py_split s)"

text \<open>
  \<open>s.replace(old, new)\<close>: every occurrence of \<open>old\<close>, found left to right without
  overlap, becomes \<open>new\<close>; an empty \<open>old\<close> matches before every character and at the end.
\<close>

fun replace_scan :: "ustr \<Rightarrow> ustr \<Rightarrow> nat \<Rightarrow> ustr \<Rightarrow> ustr" where
  "replace_scan old new skip [] = []"
| "replace_scan old new skip (c # cs) =
     (if 0 < skip then replace_scan old new (skip - 1) cs
      else if prefix old (c # cs) then new @ replace_scan old new (length old - 1) cs
      else c # replace_scan old new 0 cs)"

definition py_replace :: "ustr \<Rightarrow> ustr \<Rightarrow> ustr \<Rightarrow> ustr" where
  "py_replace old new s =
     (if old = [] then new @ concat (map (\<lambda>c. c # new) s) else replace_scan old new 0 s)"


section \<open>Regular expressions\<close>

text \<open>
  The patterns of the program use literals, character classes, the anchors \<open>^\<close> and \<open>$\<close>,
  alternation, the greedy repetitions \<open>*\<close>, \<open>+\<close> and \<open>?\<close>, and groups. The matcher below is
  the backtracking matcher of \<open>re\<close> in continuation-passing style: an alternative is
  tried left to right, a repetition takes as many rounds as it can and gives them back
  one by one, and the first way through that lets the rest of the pattern match is the
  match.
\<close>

datatype rx =
    Chr "nat \<Rightarrow> bool"
  | Bol
  | Eol
  | Eps
  | Seq rx rx
  | Alt rx rx
  | Star rx
  | Grp nat rx

record mstate =
  ms_pos :: nat
  ms_rest :: ustr
  ms_groups :: "(nat \<times> ustr) list"

text \<open>
  A greedy repetition. Every round of the patterns at hand consumes a character, so the
  number of characters left bounds the number of rounds; a round that consumes nothing
  ends the repetition.
\<close>

primrec rx_star ::
  "((mstate \<Rightarrow> 'r option) \<Rightarrow> mstate \<Rightarrow> 'r option) \<Rightarrow> nat \<Rightarrow> (mstate \<Rightarrow> 'r option) \<Rightarrow> mstate \<Rightarrow> 'r option"
where
  "rx_star f 0 k s = k s"
| "rx_star f (Suc n) k s =
     (case f (\<lambda>s'. if ms_pos s < ms_pos s' then rx_star f n k s' else k s') s of
        Some r \<Rightarrow> Some r
      | None \<Rightarrow> k s)"

primrec rx_match :: "rx \<Rightarrow> (mstate \<Rightarrow> 'r option) \<Rightarrow> mstate \<Rightarrow> 'r option" where
  "rx_match (Chr p) k s =
     (case ms_rest s of
        [] \<Rightarrow> None
      | c # cs \<Rightarrow> if p c then k (s\<lparr>ms_pos := Suc (ms_pos s), ms_rest := cs\<rparr>) else None)"
| "rx_match Bol k s = (if ms_pos s = 0 then k s else None)"
| "rx_match Eol k s = (if ms_rest s = [] \<or> ms_rest s = [10] then k s else None)"
| "rx_match Eps k s = k s"
| "rx_match (Seq a b) k s = rx_match a (rx_match b k) s"
| "rx_match (Alt a b) k s =
     (case rx_match a k s of Some r \<Rightarrow> Some r | None \<Rightarrow> rx_match b k s)"
| "rx_match (Star a) k s = rx_star (rx_match a) (length (ms_rest s)) k s"
| "rx_match (Grp n a) k s =
     rx_match a
       (\<lambda>s'. k (s'\<lparr>ms_groups := (n, take (ms_pos s' - ms_pos s) (ms_rest s)) # ms_groups s'\<rparr>)) s"

text \<open>Pattern syntax: a literal string, \<open>r+\<close>, \<open>r?\<close>, and an alternation of several.\<close>

definition rx_lit :: "ustr \<Rightarrow> rx" where
  "rx_lit w = foldr (\<lambda>c r. Seq (Chr (\<lambda>x. x = c)) r) w Eps"

definition rx_plus :: "rx \<Rightarrow> rx" where
  "rx_plus r = Seq r (Star r)"


fun rx_alts :: "rx list \<Rightarrow> rx" where
  "rx_alts [] = Chr (\<lambda>x. False)"
| "rx_alts [r] = r"
| "rx_alts (r # q # rs) = Alt r (rx_alts (q # rs))"

text \<open>
  \<open>re.search\<close> from position \<open>i\<close>, where \<open>cs\<close> is the text from \<open>i\<close> on: the leftmost
  position at which the pattern matches, with the state at the end of the match.
\<close>

fun search_from :: "rx \<Rightarrow> nat \<Rightarrow> ustr \<Rightarrow> (nat \<times> mstate) option" where
  "search_from p i [] =
     (case rx_match p Some \<lparr>ms_pos = i, ms_rest = [], ms_groups = []\<rparr> of
        Some m \<Rightarrow> Some (i, m)
      | None \<Rightarrow> None)"
| "search_from p i (c # cs) =
     (case rx_match p Some \<lparr>ms_pos = i, ms_rest = c # cs, ms_groups = []\<rparr> of
        Some m \<Rightarrow> Some (i, m)
      | None \<Rightarrow> search_from p (Suc i) cs)"

definition re_search :: "rx \<Rightarrow> ustr \<Rightarrow> (nat \<times> mstate) option" where
  "re_search p s = search_from p 0 s"



text \<open>
  \<open>re.sub(p, '', s)\<close>: every match, found left to right, is deleted. \<open>cs\<close> is the text
  from position \<open>i\<close> on. The patterns of the program never match the empty string; after
  an empty match the scan copies one character and goes on.
\<close>

function re_sub_from :: "rx \<Rightarrow> nat \<Rightarrow> ustr \<Rightarrow> ustr" where
  "re_sub_from p i cs =
     (case search_from p i cs of
        None \<Rightarrow> cs
      | Some (j, m) \<Rightarrow>
          take (j - i) cs @
          (if length (ms_rest m) < length (drop (j - i) cs)
           then re_sub_from p (ms_pos m) (ms_rest m)
           else (case drop (j - i) cs of
                   [] \<Rightarrow> []
                 | c # ds \<Rightarrow> c # re_sub_from p (Suc j) ds)))"
  by pat_completeness auto
termination
  by (relation "measure (\<lambda>(p, i, cs). length cs)")
     (auto dest: arg_cong [where f = length])

declare re_sub_from.simps [simp del]

definition re_sub :: "rx \<Rightarrow> ustr \<Rightarrow> ustr" where
  "re_sub p s = re_sub_from p 0 s"

section \<open>The text normalizer (matcher.py)\<close>

text \<open>The marker vocabulary, in the order of the alternation of the two patterns.\<close>

definition markers :: "ustr list" where
  "markers =
     [[1075, 46], [1075, 1086, 1088, 1086, 1076], [1089, 46], [1089, 1077, 1083, 1086],
      [1087, 1086, 1089, 46], [1087, 1086, 1089, 1105, 1083, 1086, 1082],
      [1091, 1083, 46], [1091, 1083, 1080, 1094, 1072], [1087, 1088, 46],
      [1087, 1088, 1086, 1089, 1087, 1077, 1082, 1090], [1084, 1082, 1088, 46],
      [1084, 1080, 1082, 1088, 1086, 1088, 1072, 1081, 1086, 1085]]"

text \<open>\<open>^(g\.|gorod|s\.|selo|pos\.|posyolok|ul\.|ulitsa|pr\.|prospekt|mkr\.|mikrorayon)\s*\<close>\<close>

definition leading_marker_rx :: rx where
  "leading_marker_rx = Seq Bol (Seq (Grp 1 (rx_alts (map rx_lit markers))) (Star (Chr py_isspace)))"

text \<open>\<open>\s*(g\.|gorod|s\.|selo|pos\.|posyolok|ul\.|ulitsa|pr\.|prospekt|mkr\.|mikrorayon)$\<close>\<close>

definition trailing_marker_rx :: rx where
  "trailing_marker_rx = Seq (Star (Chr py_isspace)) (Seq (Grp 1 (rx_alts (map rx_lit markers))) Eol)"

text \<open>
  The synonym map, in the insertion order of the dictionary: prospekt to pr, ulitsa to
  ul, mikrorayon to mkr, pereulok to per, bulvar to bul.
\<close>

definition replacements :: "(ustr \<times> ustr) list" where
  "replacements =
     [([1087, 1088, 1086, 1089, 1087, 1077, 1082, 1090], [1087, 1088]),
      ([1091, 1083, 1080, 1094, 1072], [1091, 1083]),
      ([1084, 1080, 1082, 1088, 1086, 1088, 1072, 1081, 1086, 1085], [1084, 1082, 1088]),
      ([1087, 1077, 1088, 1077, 1091, 1083, 1086, 1082], [1087, 1077, 1088]),
      ([1073, 1091, 1083, 1100, 1074, 1072, 1088], [1073, 1091, 1083])]"

definition apply_replacements :: "ustr \<Rightarrow> ustr" where
  "apply_replacements s = fold (\<lambda>(old, new) t. py_replace old new t) replacements s"

text \<open>\<open>AddressMatcher._normalize_text\<close>.\<close>

definition normalize_text :: "ustr \<Rightarrow> ustr" where
  "normalize_text text =
     (if text = [] then []
      else
        let t1 = py_strip (py_lower text);
            t2 = collapse_spaces t1;
            t3 = re_sub leading_marker_rx t2;
            t4 = re_sub trailing_marker_rx t3;
            t5 = apply_replacements t4
        in py_strip t5)"

section \<open>Python floats\<close>

text \<open>
  A Python \<open>float\<close> is an IEEE 754 binary64 number. A finite float is modelled by the
  real number it denotes, and every arithmetic operation rounds its exact result to the
  nearest number with a 53-bit significand, ties to the even significand. The exponent is
  not bounded: the scores of the program are zero or lie between \<open>2 powi - 64\<close> and 2, far
  from overflow and from the subnormal range.
\<close>

type_synonym pyfloat = real

text \<open>The binary exponent of a positive number: \<open>2 powi expo x \<le> x < 2 powi (expo x + 1)\<close>.\<close>

function expo :: "real \<Rightarrow> int" where
  "expo x =
     (if x \<le> 0 then 0
      else if 2 \<le> x then expo (x / 2) + 1
      else if x < 1 then expo (x * 2) - 1
      else 0)"
  by pat_completeness auto

lemma expo_halve_decreases:
  fixes y :: real
  assumes "1 < y"
  shows "\<lceil>y / 2\<rceil> < \<lceil>y\<rceil>"
proof (cases "2 \<le> y")
  case True
  then have "y / 2 \<le> y - 1" by simp
  then have "\<lceil>y / 2\<rceil> \<le> \<lceil>y - 1\<rceil>" by (rule ceiling_mono)
  then show ?thesis by simp
next
  case False
  then have "\<lceil>y / 2\<rceil> = 1" using assms by (simp add: ceiling_eq_iff)
  moreover have "1 < \<lceil>y\<rceil>" using assms by (simp add: less_ceiling_iff)
  ultimately show ?thesis by simp
qed

termination expo
proof (relation "measure (\<lambda>x. nat \<lceil>x\<rceil> + 2 * nat \<lceil>1 / x\<rceil>)", goal_cases)
  case 1
  show ?case by simp
next
  case (2 x)
  then have x: "2 \<le> x" by simp
  have a: "\<lceil>x / 2\<rceil> < \<lceil>x\<rceil>" using x by (intro expo_halve_decreases) simp
  have b: "\<lceil>1 / (x / 2)\<rceil> = 1" using x by (simp add: ceiling_eq_iff field_simps)
  have c: "\<lceil>1 / x\<rceil> = 1" using x by (simp add: ceiling_eq_iff field_simps)
  have d: "0 < \<lceil>x\<rceil>" using x by (simp add: less_ceiling_iff)
  show ?case using a b c d by simp
next
  case (3 x)
  then have x: "0 < x" "x < 1" by simp_all
  have x1: "\<lceil>x\<rceil> = 1" using x by (simp add: ceiling_eq_iff)
  have "x * 2 \<le> 2" using x by simp
  then have a: "\<lceil>x * 2\<rceil> \<le> 2" by (simp add: ceiling_le_iff)
  have "1 < 1 / x" using x by simp
  then have "\<lceil>(1 / x) / 2\<rceil> < \<lceil>1 / x\<rceil>" by (rule expo_halve_decreases)
  then have b: "\<lceil>1 / (x * 2)\<rceil> < \<lceil>1 / x\<rceil>" by (simp add: field_simps)
  have c: "0 < \<lceil>1 / (x * 2)\<rceil>" using x by (simp add: less_ceiling_iff)
  have x1': "nat \<lceil>x\<rceil> = 1" using x1 by simp
  have a': "nat \<lceil>x * 2\<rceil> \<le> 2" using a by simp
  have b': "nat \<lceil>1 / (x * 2)\<rceil> < nat \<lceil>1 / x\<rceil>" using b c by simp
  have "nat \<lceil>x * 2\<rceil> + 2 * nat \<lceil>1 / (x * 2)\<rceil> < nat \<lceil>x\<rceil> + 2 * nat \<lceil>1 / x\<rceil>"
    using a' b' x1' by linarith
  then show ?case by simp
qed

declare expo.simps [simp del]

text \<open>Rounding to the nearest integer, a tie going to the even one.\<close>

definition round_half_even :: "real \<Rightarrow> int" where
  "round_half_even x =
     (let f = \<lfloor>x\<rfloor>; d = x - of_int f
      in if d < 1 / 2 then f else if 1 / 2 < d then f + 1 else if even f then f else f + 1)"

text \<open>Multiplication by a power of two with an integer exponent.\<close>

definition scale2 :: "int \<Rightarrow> real \<Rightarrow> real" where
  "scale2 k x = (if 0 \<le> k then x * 2 ^ nat k else x / 2 ^ nat (- k))"

text \<open>Rounding a real number to the nearest float.\<close>

definition fl :: "real \<Rightarrow> pyfloat" where
  "fl x =
     (if x = 0 then 0
      else let e = expo \<bar>x\<bar>;
               m = round_half_even (scale2 (52 - e) \<bar>x\<bar>)
           in sgn x * scale2 (e - 52) (of_int m))"


lemmas fl_eval = fl_def round_half_even_def scale2_def Let_def expo.simps


text \<open>
  Conversion of an \<open>int\<close> operand, the float operations, and a float literal: the literal
  \<open>0.9\<close> is \<open>fl (9 / 10)\<close>.
\<close>

definition float_of_nat :: "nat \<Rightarrow> pyfloat" where
  "float_of_nat n = fl (of_nat n)"

definition fmul :: "pyfloat \<Rightarrow> pyfloat \<Rightarrow> pyfloat" where
  "fmul x y = fl (x * y)"

definition fadd :: "pyfloat \<Rightarrow> pyfloat \<Rightarrow> pyfloat" where
  "fadd x y = fl (x + y)"

definition fdiv :: "pyfloat \<Rightarrow> pyfloat \<Rightarrow> pyfloat" where
  "fdiv x y = fl (x / y)"

lemmas float_eval = float_of_nat_def fmul_def fadd_def fdiv_def fl_eval




lemma expo_bounds: "0 < x \<Longrightarrow> 2 powi expo x \<le> x \<and> x < 2 powi (expo x + 1)"
proof (induction x rule: expo.induct)
  case (1 x)
  show ?case
  proof (cases "2 \<le> x")
    case True
    then have ih: "2 powi expo (x / 2) \<le> x / 2 \<and> x / 2 < 2 powi (expo (x / 2) + 1)"
      using 1 by simp
    have e: "expo x = expo (x / 2) + 1" using True by (subst expo.simps) simp
    show ?thesis using ih by (simp add: e power_int_add)
  next
    case False
    show ?thesis
    proof (cases "x < 1")
      case True
      then have ih: "2 powi expo (x * 2) \<le> x * 2 \<and> x * 2 < 2 powi (expo (x * 2) + 1)"
        using 1 False by simp
      have e: "expo x = expo (x * 2) - 1" using True 1(3) by (subst expo.simps) simp
      show ?thesis using ih by (simp add: e power_int_add power_int_diff)
    next
      case False
      then have e: "expo x = 0" using \<open>\<not> 2 \<le> x\<close> by (subst expo.simps) simp
      show ?thesis using False \<open>\<not> 2 \<le> x\<close> by (simp add: e)
    qed
  qed
qed


lemma round_half_even_of_int: "round_half_even (of_int n) = n"
  by (simp add: round_half_even_def)

lemma round_half_even_range: "\<lfloor>x\<rfloor> \<le> round_half_even x \<and> round_half_even x \<le> \<lfloor>x\<rfloor> + 1"
  by (simp add: round_half_even_def Let_def)

lemma round_half_even_mono:
  assumes "x \<le> y"
  shows "round_half_even x \<le> round_half_even y"
proof (cases "\<lfloor>x\<rfloor> = \<lfloor>y\<rfloor>")
  case True
  then show ?thesis using assms by (auto simp: round_half_even_def Let_def)
next
  case False
  then have "\<lfloor>x\<rfloor> < \<lfloor>y\<rfloor>" using floor_mono [OF assms] by simp
  then have "\<lfloor>x\<rfloor> + 1 \<le> \<lfloor>y\<rfloor>" by simp
  then show ?thesis
    using round_half_even_range [of x] round_half_even_range [of y] by linarith
qed

lemma scale2_powi: "scale2 k x = x * 2 powi k"
  by (simp add: scale2_def power_int_def field_simps)

lemma fl_pos_eq:
  "0 < x \<Longrightarrow> fl x = of_int (round_half_even (x * 2 powi (52 - expo x))) * 2 powi (expo x - 52)"
  by (simp add: fl_def Let_def scale2_powi)

lemma fl_pos_bounds:
  assumes "0 < x"
  shows "2 powi expo x \<le> fl x \<and> fl x \<le> 2 powi (expo x + 1)"
proof -
  let ?e = "expo x"
  let ?m = "round_half_even (x * 2 powi (52 - ?e))"
  have b: "2 powi ?e \<le> x" "x < 2 powi (?e + 1)" using expo_bounds [OF assms] by simp_all
  have p: "(0::real) < 2 powi (52 - ?e)" by simp
  have "2 powi ?e * 2 powi (52 - ?e) \<le> x * 2 powi (52 - ?e)"
    using b(1) p by (intro mult_right_mono) simp_all
  then have lo: "of_int (2 ^ 52) \<le> x * 2 powi (52 - ?e)"
    by (simp flip: power_int_add)
  have "x * 2 powi (52 - ?e) \<le> 2 powi (?e + 1) * 2 powi (52 - ?e)"
    using b(2) p by (intro mult_right_mono) simp_all
  then have hi: "x * 2 powi (52 - ?e) \<le> of_int (2 ^ 53)"
    by (simp flip: power_int_add)
  have mlo: "2 ^ 52 \<le> ?m"
    using round_half_even_mono [OF lo] by (simp only: round_half_even_of_int)
  have mhi: "?m \<le> 2 ^ 53"
    using round_half_even_mono [OF hi] by (simp only: round_half_even_of_int)
  have q: "(0::real) < 2 powi (?e - 52)" by simp
  have mlo': "real_of_int (2 ^ 52) \<le> real_of_int ?m"
    using mlo by (simp only: of_int_le_iff)
  have mhi': "real_of_int ?m \<le> real_of_int (2 ^ 53)"
    using mhi by (simp only: of_int_le_iff)
  have A: "of_int (2 ^ 52) * 2 powi (?e - 52) \<le> real_of_int ?m * 2 powi (?e - 52)"
    by (rule mult_right_mono [OF mlo' less_imp_le [OF q]])
  have B: "of_int (2 ^ 52) * 2 powi (?e - 52) = (2::real) powi ?e"
    by (simp add: power_int_diff)
  have C: "real_of_int ?m * 2 powi (?e - 52) \<le> of_int (2 ^ 53) * 2 powi (?e - 52)"
    by (rule mult_right_mono [OF mhi' less_imp_le [OF q]])
  have D: "of_int (2 ^ 53) * 2 powi (?e - 52) = (2::real) powi (?e + 1)"
    by (simp add: power_int_diff power_int_add)
  have "2 powi ?e \<le> real_of_int ?m * 2 powi (?e - 52)"
    using A by (simp only: B)
  moreover have "real_of_int ?m * 2 powi (?e - 52) \<le> 2 powi (?e + 1)"
    using C by (simp only: D)
  ultimately show ?thesis by (simp only: fl_pos_eq [OF assms] simp_thms)
qed

lemma fl_pos: "0 < x \<Longrightarrow> 0 < fl x"
proof -
  assume x: "0 < x"
  have "(0::real) < 2 powi expo x" by simp
  then show ?thesis using fl_pos_bounds [OF x] by linarith
qed

lemma fl_zero: "fl 0 = 0"
  by (simp add: fl_def)

lemma fl_minus: "fl (- x) = - fl x"
  by (simp add: fl_def Let_def)

lemma expo_mono:
  assumes "0 < x" "x \<le> y"
  shows "expo x \<le> expo y"
proof (rule ccontr)
  assume "\<not> expo x \<le> expo y"
  then have "expo y + 1 \<le> expo x" by simp
  then have "(2::real) powi (expo y + 1) \<le> 2 powi expo x"
    by (intro power_int_increasing) simp_all
  moreover have "2 powi expo x \<le> x" using expo_bounds [of x] assms by simp
  moreover have "y < 2 powi (expo y + 1)" using expo_bounds [of y] assms by simp
  ultimately show False using assms by linarith
qed

lemma fl_mono_pos:
  assumes "0 < x" "x \<le> y"
  shows "fl x \<le> fl y"
proof (cases "expo x = expo y")
  case True
  have y: "0 < y" using assms by simp
  have "x * 2 powi (52 - expo y) \<le> y * 2 powi (52 - expo y)"
    using assms by (intro mult_right_mono) simp_all
  then have "round_half_even (x * 2 powi (52 - expo y)) \<le> round_half_even (y * 2 powi (52 - expo y))"
    by (rule round_half_even_mono)
  then have "real_of_int (round_half_even (x * 2 powi (52 - expo y))) * 2 powi (expo y - 52)
      \<le> real_of_int (round_half_even (y * 2 powi (52 - expo y))) * 2 powi (expo y - 52)"
    by (intro mult_right_mono) simp_all
  then show ?thesis by (simp add: fl_pos_eq [OF assms(1)] fl_pos_eq [OF y] True)
next
  case False
  have y: "0 < y" using assms by simp
  have "expo x + 1 \<le> expo y" using False expo_mono [OF assms] by simp
  then have "(2::real) powi (expo x + 1) \<le> 2 powi expo y"
    by (intro power_int_increasing) simp_all
  then show ?thesis
    using fl_pos_bounds [OF assms(1)] fl_pos_bounds [OF y] by linarith
qed

lemma fl_mono:
  assumes "x \<le> y"
  shows "fl x \<le> fl y"
proof -
  consider "0 < x" | "x = 0" | "x < 0" "0 < y" | "x < 0" "y = 0" | "x < 0" "y < 0"
    using assms by linarith
  then show ?thesis
  proof cases
    case 1
    then show ?thesis using assms by (rule fl_mono_pos)
  next
    case 2
    then show ?thesis
      using assms fl_pos [of y] by (cases "y = 0") (simp_all add: fl_zero less_eq_real_def)
  next
    case 3
    have "0 < fl (- x)" using 3 by (intro fl_pos) simp
    then have "fl x < 0" by (simp add: fl_minus)
    then show ?thesis using fl_pos [OF 3(2)] by linarith
  next
    case 4
    have "0 < fl (- x)" using 4 by (intro fl_pos) simp
    then show ?thesis using 4 by (simp add: fl_minus fl_zero)
  next
    case 5
    have "fl (- y) \<le> fl (- x)" using 5 assms by (intro fl_mono_pos) simp_all
    then show ?thesis by (simp add: fl_minus)
  qed
qed

lemma fl_nonneg: "0 \<le> x \<Longrightarrow> 0 \<le> fl x"
  using fl_mono [of 0 x] by (simp add: fl_zero)

section \<open>difflib.SequenceMatcher\<close>

text \<open>
  \<open>_calculate_similarity\<close> calls \<open>SequenceMatcher(None, text1, text2).ratio()\<close> of the
  standard library. The model follows \<open>difflib.py\<close> of CPython 3.11 with \<open>isjunk = None\<close>
  and \<open>autojunk = True\<close>.

  \<open>b2j\<close>: the positions of an element in \<open>b\<close>, in ascending order; when \<open>b\<close> has 200
  elements or more, an element that fills more than \<open>len(b) // 100 + 1\<close> positions is
  popular and has no entry.
\<close>

definition b2j :: "ustr \<Rightarrow> nat \<Rightarrow> nat list" where
  "b2j b x =
     (let idxs = filter (\<lambda>j. b ! j = x) [0..<length b]
      in if 200 \<le> length b \<and> length b div 100 + 1 < length idxs then [] else idxs)"

text \<open>\<open>j2len.get(j - 1, 0)\<close>; no key is negative.\<close>

definition j2lenget :: "(nat \<rightharpoonup> nat) \<Rightarrow> nat \<Rightarrow> nat" where
  "j2lenget j2len j =
     (if j = 0 then 0 else case j2len (j - 1) of None \<Rightarrow> 0 | Some k \<Rightarrow> k)"

text \<open>A match \<open>(i, j, k)\<close>: \<open>a[i:i+k] == b[j:j+k]\<close>.\<close>

type_synonym match = "nat \<times> nat \<times> nat"

text \<open>
  The two nested loops of \<open>find_longest_match\<close>. The inner loop runs over the positions
  \<open>j\<close> of \<open>a[i]\<close> in \<open>b\<close>: it skips \<open>j < blo\<close>, stops at \<open>j >= bhi\<close>, records in
  \<open>newj2len\<close> the length \<open>k\<close> of the match that ends at \<open>(i, j)\<close> and keeps the first longest
  one. The source computes \<open>i - k + 1\<close> on integers; \<open>k\<close> is at most \<open>i + 1\<close>
  (lemma \<open>flm_inner_inv\<close>), so the subtraction on naturals is the same number.
\<close>

fun flm_inner ::
  "nat \<Rightarrow> nat \<Rightarrow> nat \<Rightarrow> (nat \<rightharpoonup> nat) \<Rightarrow> nat list \<Rightarrow> (nat \<rightharpoonup> nat) \<times> match \<Rightarrow> (nat \<rightharpoonup> nat) \<times> match"
where
  "flm_inner i blo bhi j2len [] st = st"
| "flm_inner i blo bhi j2len (j # js) (newj2len, (besti, bestj, bestsize)) =
     (if j < blo then flm_inner i blo bhi j2len js (newj2len, (besti, bestj, bestsize))
      else if bhi \<le> j then (newj2len, (besti, bestj, bestsize))
      else
        let k = j2lenget j2len j + 1
        in flm_inner i blo bhi j2len js
             (newj2len(j \<mapsto> k),
              if bestsize < k then (i + 1 - k, j + 1 - k, k) else (besti, bestj, bestsize)))"

fun flm_outer ::
  "ustr \<Rightarrow> ustr \<Rightarrow> nat \<Rightarrow> nat \<Rightarrow> nat list \<Rightarrow> (nat \<rightharpoonup> nat) \<times> match \<Rightarrow> match"
where
  "flm_outer a b blo bhi [] (j2len, best) = best"
| "flm_outer a b blo bhi (i # is) (j2len, best) =
     flm_outer a b blo bhi is (flm_inner i blo bhi j2len (b2j b (a ! i)) (Map.empty, best))"

text \<open>
  The two loops that extend the best match to the left and to the right while the
  elements agree. The junk set \<open>bjunk\<close> is empty, so the test \<open>not isbjunk(...)\<close> is true
  and the last two loops of the source, which ask for a junk element, never run.
\<close>

function extend_left :: "ustr \<Rightarrow> ustr \<Rightarrow> nat \<Rightarrow> nat \<Rightarrow> match \<Rightarrow> match" where
  "extend_left a b alo blo (besti, bestj, bestsize) =
     (if alo < besti \<and> blo < bestj \<and> a ! (besti - 1) = b ! (bestj - 1)
      then extend_left a b alo blo (besti - 1, bestj - 1, bestsize + 1)
      else (besti, bestj, bestsize))"
  by pat_completeness auto
termination
  by (relation "measure (\<lambda>(a, b, alo, blo, besti, bestj, bestsize). besti)") auto

function extend_right :: "ustr \<Rightarrow> ustr \<Rightarrow> nat \<Rightarrow> nat \<Rightarrow> match \<Rightarrow> match" where
  "extend_right a b ahi bhi (besti, bestj, bestsize) =
     (if besti + bestsize < ahi \<and> bestj + bestsize < bhi
         \<and> a ! (besti + bestsize) = b ! (bestj + bestsize)
      then extend_right a b ahi bhi (besti, bestj, bestsize + 1)
      else (besti, bestj, bestsize))"
  by pat_completeness auto
termination
  by (relation "measure (\<lambda>(a, b, ahi, bhi, besti, bestj, bestsize). ahi - (besti + bestsize))") auto

declare extend_left.simps [simp del] extend_right.simps [simp del]

definition find_longest_match :: "ustr \<Rightarrow> ustr \<Rightarrow> nat \<Rightarrow> nat \<Rightarrow> nat \<Rightarrow> nat \<Rightarrow> match" where
  "find_longest_match a b alo ahi blo bhi =
     extend_right a b ahi bhi
       (extend_left a b alo blo
          (flm_outer a b blo bhi [alo..<ahi] (Map.empty, (alo, blo, 0))))"


text \<open>
  The match found lies inside the range searched. The loop of \<open>get_matching_blocks\<close>
  terminates because of it.
\<close>

definition flm_inv :: "nat \<Rightarrow> nat \<Rightarrow> match \<Rightarrow> bool" where
  "flm_inv alo ahi m =
     (case m of (besti, bestj, bestsize) \<Rightarrow>
        alo \<le> besti \<and> (bestsize = 0 \<or> besti + bestsize \<le> ahi) \<and> (0 < bestsize \<or> besti = alo))"

definition j2len_le :: "(nat \<rightharpoonup> nat) \<Rightarrow> nat \<Rightarrow> bool" where
  "j2len_le j2len n = (\<forall>j k. j2len j = Some k \<longrightarrow> k \<le> n)"

lemma j2lenget_le: "j2len_le j2len n \<Longrightarrow> j2lenget j2len j \<le> n"
  by (auto simp: j2len_le_def j2lenget_def split: option.splits)

lemma flm_inner_inv:
  assumes "alo \<le> i" "i < ahi" "j2len_le j2len (i - alo)"
  shows "j2len_le nj (i + 1 - alo) \<Longrightarrow> flm_inv alo ahi best \<Longrightarrow>
         j2len_le (fst (flm_inner i blo bhi j2len js (nj, best))) (i + 1 - alo)
         \<and> flm_inv alo ahi (snd (flm_inner i blo bhi j2len js (nj, best)))"
proof (induction js arbitrary: nj best)
  case Nil
  then show ?case by simp
next
  case (Cons j js)
  obtain besti bestj bestsize where best: "best = (besti, bestj, bestsize)"
    by (cases best) auto
  let ?k = "j2lenget j2len j + 1"
  have k: "?k \<le> i + 1 - alo"
    using j2lenget_le [OF assms(3), of j] assms(1) by simp
  have nj': "j2len_le (nj(j \<mapsto> ?k)) (i + 1 - alo)"
    using Cons.prems(1) k by (auto simp: j2len_le_def)
  have new: "flm_inv alo ahi (i + 1 - ?k, j + 1 - ?k, ?k)"
    using k assms(1,2) by (auto simp: flm_inv_def)
  show ?case
  proof (cases "j < blo")
    case True
    then show ?thesis using Cons.IH [OF Cons.prems] by (simp add: best)
  next
    case False
    show ?thesis
    proof (cases "bhi \<le> j")
      case True
      then show ?thesis using False Cons.prems by (simp add: best)
    next
      case inrange: False
      show ?thesis
      proof (cases "bestsize < ?k")
        case True
        have eq: "flm_inner i blo bhi j2len (j # js) (nj, best)
                  = flm_inner i blo bhi j2len js (nj(j \<mapsto> ?k), (i + 1 - ?k, j + 1 - ?k, ?k))"
          using True False inrange by (simp add: best Let_def)
        show ?thesis unfolding eq by (rule Cons.IH [OF nj' new])
      next
        case keep: False
        have eq: "flm_inner i blo bhi j2len (j # js) (nj, best)
                  = flm_inner i blo bhi j2len js (nj(j \<mapsto> ?k), best)"
          using keep False inrange by (simp add: best Let_def)
        show ?thesis unfolding eq by (rule Cons.IH [OF nj' Cons.prems(2)])
      qed
    qed
  qed
qed

lemma flm_outer_inv:
  "alo \<le> i0 \<Longrightarrow> j2len_le j2len (i0 - alo) \<Longrightarrow> flm_inv alo ahi best \<Longrightarrow>
   flm_inv alo ahi (flm_outer a b blo bhi [i0..<ahi] (j2len, best))"
proof (induction "ahi - i0" arbitrary: i0 j2len best)
  case 0
  then show ?case by simp
next
  case (Suc n)
  then have lt: "i0 < ahi" by simp
  obtain nj best' where st: "flm_inner i0 blo bhi j2len (b2j b (a ! i0)) (Map.empty, best) = (nj, best')"
    by (cases "flm_inner i0 blo bhi j2len (b2j b (a ! i0)) (Map.empty, best)") auto
  have "j2len_le Map.empty (i0 + 1 - alo)" by (simp add: j2len_le_def)
  from flm_inner_inv [OF Suc.prems(1) lt Suc.prems(2) this Suc.prems(3), of blo bhi "b2j b (a ! i0)"]
  have nj: "j2len_le nj (Suc i0 - alo)" and b': "flm_inv alo ahi best'"
    by (simp_all add: st)
  have "flm_inv alo ahi (flm_outer a b blo bhi [Suc i0..<ahi] (nj, best'))"
    using Suc.hyps(2) Suc.prems(1) nj b' by (intro Suc.hyps(1)) simp_all
  then show ?case using lt by (simp add: upt_conv_Cons st)
qed

lemma extend_left_inv:
  "flm_inv alo ahi m \<Longrightarrow> flm_inv alo ahi (extend_left a b alo blo m)"
proof (induction a b alo blo m rule: extend_left.induct)
  case (1 a b alo blo besti bestj bestsize)
  show ?case
  proof (cases "alo < besti \<and> blo < bestj \<and> a ! (besti - 1) = b ! (bestj - 1)")
    case True
    have "flm_inv alo ahi (besti - 1, bestj - 1, bestsize + 1)"
      using True 1(2) by (auto simp: flm_inv_def)
    then show ?thesis using True 1(1) by (subst extend_left.simps) simp
  next
    case False
    then show ?thesis using 1(2) by (subst extend_left.simps) auto
  qed
qed

lemma extend_right_inv:
  "flm_inv alo ahi m \<Longrightarrow> flm_inv alo ahi (extend_right a b ahi bhi m)"
proof (induction a b ahi bhi m rule: extend_right.induct)
  case (1 a b ahi bhi besti bestj bestsize)
  show ?case
  proof (cases "besti + bestsize < ahi \<and> bestj + bestsize < bhi
         \<and> a ! (besti + bestsize) = b ! (bestj + bestsize)")
    case True
    have "flm_inv alo ahi (besti, bestj, bestsize + 1)"
      using True 1(2) by (auto simp: flm_inv_def)
    then show ?thesis using True 1(1) by (subst extend_right.simps) simp
  next
    case False
    then show ?thesis using 1(2) by (subst extend_right.simps) auto
  qed
qed

lemma find_longest_match_bounds:
  assumes "find_longest_match a b alo ahi blo bhi = (i, j, k)" "k \<noteq> 0"
  shows "alo \<le> i \<and> i + k \<le> ahi"
proof -
  have "flm_inv alo ahi (alo, blo, 0)" by (simp add: flm_inv_def)
  then have "flm_inv alo ahi (flm_outer a b blo bhi [alo..<ahi] (Map.empty, (alo, blo, 0)))"
    by (intro flm_outer_inv) (simp_all add: j2len_le_def)
  then have "flm_inv alo ahi (find_longest_match a b alo ahi blo bhi)"
    unfolding find_longest_match_def by (intro extend_right_inv extend_left_inv)
  then show ?thesis using assms by (simp add: flm_inv_def)
qed


text \<open>
  \<open>get_matching_blocks\<close>: the loop over the stack \<open>queue\<close> (its top is the head of the
  list), the sort of the blocks found, the loop that merges adjacent blocks, and the
  sentinel.
\<close>

type_synonym range = "nat \<times> nat \<times> nat \<times> nat"

definition queue_size :: "range list \<Rightarrow> nat" where
  "queue_size queue = sum_list (map (\<lambda>(alo, ahi, blo, bhi). 2 * (ahi - alo) + 1) queue)"

function gmb_loop :: "ustr \<Rightarrow> ustr \<Rightarrow> range list \<Rightarrow> match list \<Rightarrow> match list" where
  "gmb_loop a b [] blocks = blocks"
| "gmb_loop a b ((alo, ahi, blo, bhi) # queue) blocks =
     (case find_longest_match a b alo ahi blo bhi of
        (i, j, k) \<Rightarrow>
          if k \<noteq> 0
          then gmb_loop a b
                 ((if i + k < ahi \<and> j + k < bhi then [(i + k, ahi, j + k, bhi)] else []) @
                  (if alo < i \<and> blo < j then [(alo, i, blo, j)] else []) @ queue)
                 (blocks @ [(i, j, k)])
          else gmb_loop a b queue blocks)"
  by pat_completeness auto
termination
proof (relation "measure (\<lambda>(a, b, queue, blocks). queue_size queue)", goal_cases)
  case 1
  show ?case by simp
next
  case 2
  then show ?case
    by (auto simp: queue_size_def dest!: find_longest_match_bounds [OF sym])
next
  case 3
  then show ?case by (simp add: queue_size_def)
qed

declare gmb_loop.simps [simp del]

fun collapse_blocks :: "match list \<Rightarrow> match \<Rightarrow> match list \<Rightarrow> match list" where
  "collapse_blocks [] (i1, j1, k1) non_adjacent =
     (if k1 \<noteq> 0 then non_adjacent @ [(i1, j1, k1)] else non_adjacent)"
| "collapse_blocks ((i2, j2, k2) # blocks) (i1, j1, k1) non_adjacent =
     (if i1 + k1 = i2 \<and> j1 + k1 = j2
      then collapse_blocks blocks (i1, j1, k1 + k2) non_adjacent
      else collapse_blocks blocks (i2, j2, k2)
             (if k1 \<noteq> 0 then non_adjacent @ [(i1, j1, k1)] else non_adjacent))"

definition get_matching_blocks :: "ustr \<Rightarrow> ustr \<Rightarrow> match list" where
  "get_matching_blocks a b =
     collapse_blocks (sort (gmb_loop a b [(0, length a, 0, length b)] [])) (0, 0, 0) []
     @ [(length a, length b, 0)]"

text \<open>\<open>_calculate_ratio\<close> and \<open>ratio\<close>: \<open>2.0 * matches / length\<close>.\<close>

definition calculate_ratio :: "nat \<Rightarrow> nat \<Rightarrow> pyfloat" where
  "calculate_ratio matches len =
     (if len \<noteq> 0 then fdiv (fmul 2 (float_of_nat matches)) (float_of_nat len) else 1)"

definition ratio :: "ustr \<Rightarrow> ustr \<Rightarrow> pyfloat" where
  "ratio a b =
     calculate_ratio (sum_list (map (\<lambda>(i, j, k). k) (get_matching_blocks a b)))
       (length a + length b)"


lemmas difflib_eval = ratio_def calculate_ratio_def get_matching_blocks_def gmb_loop.simps
  find_longest_match_def extend_left.simps extend_right.simps b2j_def j2lenget_def Let_def
  float_eval less_eq_prod_def less_prod_def

section \<open>Configuration (config.py)\<close>

definition SETTLEMENT_MATCH_THRESHOLD :: pyfloat where
  "SETTLEMENT_MATCH_THRESHOLD = fl (9 / 10)"

definition PARTIAL_MATCH_THRESHOLD :: pyfloat where
  "PARTIAL_MATCH_THRESHOLD = fl (4 / 10)"

definition STREET_WEIGHT :: pyfloat where
  "STREET_WEIGHT = fl (7 / 10)"

definition HOUSE_WEIGHT :: pyfloat where
  "HOUSE_WEIGHT = fl (3 / 10)"

section \<open>The matcher (matcher.py)\<close>

text \<open>\<open>AddressMatcher._calculate_similarity\<close>.\<close>

definition calculate_similarity :: "ustr \<Rightarrow> ustr \<Rightarrow> pyfloat" where
  "calculate_similarity text1 text2 =
     (if text1 = [] \<or> text2 = [] then 0
      else if text1 = text2 then 1
      else ratio text1 text2)"

text \<open>
  \<open>AddressMatcher._extract_house_number\<close>: \<open>re.search(r'\d+', house_str)\<close> and the text of
  the match, or \<open>None\<close>.
\<close>

definition extract_house_number :: "ustr \<Rightarrow> ustr option" where
  "extract_house_number house_str =
     (if house_str = [] then None
      else case re_search (rx_plus (Chr py_isdigit)) house_str of
             None \<Rightarrow> None
           | Some (i, m) \<Rightarrow> Some (take (ms_pos m - i) (drop i house_str)))"

text \<open>The truth value of an optional string: \<open>None\<close> and \<open>''\<close> are false.\<close>

fun truthy :: "ustr option \<Rightarrow> bool" where
  "truthy None = False"
| "truthy (Some s) = (s \<noteq> [])"

text \<open>\<open>AddressMatcher._calculate_house_similarity\<close>.\<close>

definition calculate_house_similarity :: "ustr \<Rightarrow> ustr \<Rightarrow> pyfloat" where
  "calculate_house_similarity house1 house2 =
     (if house1 = [] \<or> house2 = [] then 0
      else
        let num1 = extract_house_number house1;
            num2 = extract_house_number house2
        in if py_lower (py_strip house1) = py_lower (py_strip house2) then 1
           else if truthy num1 \<and> truthy num2 \<and> num1 = num2 then fl (9 / 10)
           else calculate_similarity house1 house2)"

text \<open>
  An office record is a dictionary from field names to strings. The parser writes the
  four keys \<open>full_address\<close>, \<open>settlement\<close>, \<open>street\<close> and \<open>house\<close>; the matcher reads
  \<open>street\<close> and \<open>house\<close> with \<open>get\<close> and a default, and \<open>settlement\<close> by subscript, which
  raises \<open>KeyError\<close> when the key is missing.
\<close>

type_synonym office = "string \<rightharpoonup> ustr"

datatype py_error = KeyError string

definition ustr_of :: "string \<Rightarrow> ustr" where
  "ustr_of s = map of_char s"

text \<open>\<open>str(e)\<close> of a \<open>KeyError\<close> is the \<open>repr\<close> of the key: the key between single quotes.\<close>

fun str_of_error :: "py_error \<Rightarrow> ustr" where
  "str_of_error (KeyError k) = [39] @ ustr_of k @ [39]"

text \<open>
  \<open>format(x, '.2f')\<close> of a float that is not negative: the decimal expansion of the exact
  value rounded to two places, ties to even.
\<close>

function decimal :: "nat \<Rightarrow> ustr" where
  "decimal n = (if n < 10 then [48 + n] else decimal (n div 10) @ [48 + n mod 10])"
  by pat_completeness auto
termination
  by (relation "measure id") auto

declare decimal.simps [simp del]

definition format_2f :: "pyfloat \<Rightarrow> ustr" where
  "format_2f x =
     (let n = nat (round_half_even (x * 100))
      in decimal (n div 100) @ [46] @ [48 + n mod 100 div 10, 48 + n mod 10])"

record street_match =
  sm_score :: pyfloat
  sm_street_similarity :: pyfloat
  sm_house_similarity :: pyfloat
  sm_details :: ustr

text \<open>
  The weighted sum of \<open>_match_street_and_house\<close>, in the order Python evaluates it.
\<close>

definition composite :: "pyfloat \<Rightarrow> pyfloat \<Rightarrow> pyfloat \<Rightarrow> pyfloat" where
  "composite settlement_score street_similarity house_similarity =
     fadd
       (fadd (fmul settlement_score (fl (3 / 10))) (fmul street_similarity STREET_WEIGHT))
       (fmul house_similarity HOUSE_WEIGHT)"

text \<open>
  \<open>AddressMatcher._match_street_and_house\<close>. The details string is Naiden: settlement,
  street, house (ulitsa: x.xx, dom: y.yy).
\<close>

definition match_street_and_house ::
  "ustr \<Rightarrow> ustr \<Rightarrow> office \<Rightarrow> pyfloat \<Rightarrow> py_error + street_match"
where
  "match_street_and_house street house office settlement_score =
     (let office_street = (case office ''street'' of Some s \<Rightarrow> s | None \<Rightarrow> []);
          office_house = (case office ''house'' of Some s \<Rightarrow> s | None \<Rightarrow> []);
          normalized_street = normalize_text street;
          normalized_office_street = normalize_text office_street;
          street_similarity = calculate_similarity normalized_street normalized_office_street;
          house_similarity = calculate_house_similarity house office_house;
          total_score = composite settlement_score street_similarity house_similarity
      in case office ''settlement'' of
           None \<Rightarrow> Inl (KeyError ''settlement'')
         | Some office_settlement \<Rightarrow>
             Inr \<lparr>sm_score = total_score,
                  sm_street_similarity = street_similarity,
                  sm_house_similarity = house_similarity,
                  sm_details =
                    [1053, 1072, 1081, 1076, 1077, 1085, 58, 32] @ office_settlement @ [44, 32]
                    @ office_street @ [44, 32] @ office_house
                    @ [32, 40, 1091, 1083, 1080, 1094, 1072, 58, 32] @ format_2f street_similarity
                    @ [44, 32, 1076, 1086, 1084, 58, 32] @ format_2f house_similarity @ [41]\<rparr>)"

text \<open>
  The reference database \<open>offices_data\<close> is a dictionary from settlement names to office
  lists, and \<open>settlement_cache\<close> one from normalized names to office lists. Both are
  iterated, so each is the list of its items in insertion order.
\<close>

type_synonym offices_data = "(ustr \<times> office list) list"

text \<open>
  One round of the loop of \<open>_prepare_search_cache\<close>: a new key is added at the end with an
  empty list, and the list of the key is extended by the offices.
\<close>

fun cache_extend :: "ustr \<Rightarrow> office list \<Rightarrow> offices_data \<Rightarrow> offices_data" where
  "cache_extend key offices [] = [(key, [] @ offices)]"
| "cache_extend key offices ((k, v) # cache) =
     (if k = key then (k, v @ offices) # cache else (k, v) # cache_extend key offices cache)"

definition prepare_search_cache :: "offices_data \<Rightarrow> offices_data" where
  "prepare_search_cache data =
     fold (\<lambda>(settlement, offices) cache. cache_extend (normalize_text settlement) offices cache)
       data []"

record settlement_match =
  st_name :: ustr
  st_offices :: "office list"
  st_score :: pyfloat

text \<open>
  \<open>list.sort(key = f, reverse = True)\<close>: CPython reverses the list, sorts it with its
  stable ascending sort and reverses the result.
\<close>

definition sort_reverse :: "('a \<Rightarrow> pyfloat) \<Rightarrow> 'a list \<Rightarrow> 'a list" where
  "sort_reverse f xs = rev (sort_key f (rev xs))"

text \<open>\<open>AddressMatcher._find_matching_settlements\<close>.\<close>

definition settlement_candidates :: "offices_data \<Rightarrow> ustr \<Rightarrow> settlement_match list" where
  "settlement_candidates cache normalized_input =
     map (\<lambda>(cached_settlement, offices).
            \<lparr>st_name = cached_settlement, st_offices = offices,
             st_score = calculate_similarity normalized_input cached_settlement\<rparr>) cache"

definition find_matching_settlements :: "offices_data \<Rightarrow> ustr \<Rightarrow> settlement_match list" where
  "find_matching_settlements cache settlement_name =
     sort_reverse st_score
       (filter (\<lambda>m. SETTLEMENT_MATCH_THRESHOLD \<le> st_score m)
          (settlement_candidates cache (normalize_text settlement_name)))"

record address_data =
  ad_row_num :: int
  ad_settlement :: ustr
  ad_street :: ustr
  ad_house :: ustr

record match_result =
  mr_row_num :: int
  mr_status :: ustr
  mr_details :: ustr

record best_match =
  bm_office :: office
  bm_settlement_score :: pyfloat
  bm_total_score :: pyfloat
  bm_details :: ustr

text \<open>The three statuses: Da (yes), Proverit (check) and Net (no).\<close>

definition status_yes :: ustr where
  "status_yes = [1044, 1072]"

definition status_check :: ustr where
  "status_check = [1055, 1088, 1086, 1074, 1077, 1088, 1080, 1090, 1100]"

definition status_no :: ustr where
  "status_no = [1053, 1077, 1090]"

text \<open>\<open>AddressMatcher._determine_status\<close>.\<close>

definition determine_status :: "best_match \<Rightarrow> address_data \<Rightarrow> match_result" where
  "determine_status best address =
     (let total_score = bm_total_score best;
          status = (if fl (9 / 10) \<le> total_score then status_yes
                    else if PARTIAL_MATCH_THRESHOLD \<le> total_score then status_check
                    else status_no)
      in \<lparr>mr_row_num = ad_row_num address, mr_status = status, mr_details = bm_details best\<rparr>)"

text \<open>
  The two nested loops of \<open>match_address\<close> over the candidate settlements and their
  offices. The state is \<open>best_match\<close> (\<open>None\<close> at the start) and \<open>best_score\<close> (0 at the
  start); an exception leaves the loops at once.
\<close>

type_synonym best_state = "best_match option \<times> pyfloat"

fun scan_offices ::
  "ustr \<Rightarrow> ustr \<Rightarrow> pyfloat \<Rightarrow> office list \<Rightarrow> best_state \<Rightarrow> py_error + best_state"
where
  "scan_offices street house settlement_score [] st = Inr st"
| "scan_offices street house settlement_score (office # offices) (best, best_score) =
     (case match_street_and_house street house office settlement_score of
        Inl e \<Rightarrow> Inl e
      | Inr match_result \<Rightarrow>
          scan_offices street house settlement_score offices
            (if best_score < sm_score match_result
             then (Some \<lparr>bm_office = office, bm_settlement_score = settlement_score,
                         bm_total_score = sm_score match_result,
                         bm_details = sm_details match_result\<rparr>,
                   sm_score match_result)
             else (best, best_score)))"

fun scan_settlements ::
  "ustr \<Rightarrow> ustr \<Rightarrow> settlement_match list \<Rightarrow> best_state \<Rightarrow> py_error + best_state"
where
  "scan_settlements street house [] st = Inr st"
| "scan_settlements street house (m # ms) st =
     (case scan_offices street house (st_score m) (st_offices m) st of
        Inl e \<Rightarrow> Inl e
      | Inr st' \<Rightarrow> scan_settlements street house ms st')"

text \<open>
  The body of the \<open>try\<close> statement of \<open>match_address\<close>. The two not-found messages are
  Poselenie 'settlement' ne naideno v baze QazPost and Ulitsa 'street' ne naidena v
  poselenii 'settlement'.
\<close>

definition match_address_try :: "offices_data \<Rightarrow> address_data \<Rightarrow> py_error + match_result" where
  "match_address_try cache address =
     (let matching_settlements = find_matching_settlements cache (ad_settlement address)
      in if matching_settlements = []
         then Inr \<lparr>mr_row_num = ad_row_num address, mr_status = status_no,
                   mr_details =
                     [1055, 1086, 1089, 1077, 1083, 1077, 1085, 1080, 1077, 32, 39]
                     @ ad_settlement address
                     @ [39, 32, 1085, 1077, 32, 1085, 1072, 1081, 1076, 1077, 1085, 1086, 32,
                        1074, 32, 1073, 1072, 1079, 1077, 32, 81, 97, 122, 80, 111, 115, 116]\<rparr>
         else case scan_settlements (ad_street address) (ad_house address)
                     matching_settlements (None, 0) of
                Inl e \<Rightarrow> Inl e
              | Inr (Some best, best_score) \<Rightarrow> Inr (determine_status best address)
              | Inr (None, best_score) \<Rightarrow>
                  Inr \<lparr>mr_row_num = ad_row_num address, mr_status = status_no,
                       mr_details =
                         [1059, 1083, 1080, 1094, 1072, 32, 39] @ ad_street address
                         @ [39, 32, 1085, 1077, 32, 1085, 1072, 1081, 1076, 1077, 1085, 1072,
                            32, 1074, 32, 1087, 1086, 1089, 1077, 1083, 1077, 1085, 1080,
                            1080, 32, 39]
                         @ ad_settlement address @ [39]\<rparr>)"

text \<open>
  \<open>AddressMatcher.match_address\<close>: the \<open>except Exception\<close> clause turns an exception of
  the body into a result with the status Proverit and the details Oshibka pri proverke:
  followed by the text of the exception.
\<close>

definition match_address :: "offices_data \<Rightarrow> address_data \<Rightarrow> match_result" where
  "match_address cache address =
     (case match_address_try cache address of
        Inr result \<Rightarrow> result
      | Inl e \<Rightarrow>
          \<lparr>mr_row_num = ad_row_num address, mr_status = status_check,
           mr_details =
             [1054, 1096, 1080, 1073, 1082, 1072, 32, 1087, 1088, 1080, 32, 1087, 1088, 1086,
              1074, 1077, 1088, 1082, 1077, 58, 32] @ str_of_error e\<rparr>)"

text \<open>The loop of \<open>main\<close> over the rows read: one result for every row, in order.\<close>

definition match_rows :: "offices_data \<Rightarrow> address_data list \<Rightarrow> match_result list" where
  "match_rows cache rows = map (match_address cache) rows"

section \<open>The address parser (html_parser.py)\<close>





























section \<open>Invariants of the scoring loops\<close>

text \<open>
  The least composite score of an office in a candidate bucket: the float \<open>0.9 * 0.3\<close>,
  rounded once more by each of the two additions.
\<close>

definition score_floor :: pyfloat where
  "score_floor = fl (fl (fmul (fl (9 / 10)) (fl (3 / 10))))"

text \<open>
  The state of the loops of \<open>match_address\<close>: either no office was seen and the best score
  is 0, or the best match carries the best score, which is at least the least composite
  score.
\<close>

definition best_ok :: "best_state \<Rightarrow> bool" where
  "best_ok st =
     (case st of
        (None, best_score) \<Rightarrow> best_score = 0
      | (Some best, best_score) \<Rightarrow> bm_total_score best = best_score \<and> score_floor \<le> best_score)"

section \<open>A reference database of one office\<close>

text \<open>
  The office g. Almaty, ul. Abaya, d. 150 as the parser stores it under the key almaty,
  the row Almaty, Abaya, 150 of the spreadsheet, and an office record without the key
  \<open>settlement\<close>.
\<close>

definition example_office :: office where
  "example_office =
     [''full_address'' \<mapsto>
        [1075, 46, 32, 1040, 1083, 1084, 1072, 1090, 1099, 44, 32, 1091, 1083, 46, 32, 1040,
         1073, 1072, 1103, 44, 32, 1076, 46, 32, 49, 53, 48],
      ''settlement'' \<mapsto> [1040, 1083, 1084, 1072, 1090, 1099],
      ''street'' \<mapsto> [1091, 1083, 46, 32, 1040, 1073, 1072, 1103],
      ''house'' \<mapsto> [49, 53, 48]]"

definition example_data :: offices_data where
  "example_data = [([1072, 1083, 1084, 1072, 1090, 1099], [example_office])]"

definition example_row :: address_data where
  "example_row =
     \<lparr>ad_row_num = 9, ad_settlement = [1040, 1083, 1084, 1072, 1090, 1099],
      ad_street = [1040, 1073, 1072, 1103], ad_house = [49, 53, 48]\<rparr>"

definition broken_office :: office where
  "broken_office =
     [''street'' \<mapsto> [1091, 1083, 46, 32, 1040, 1073, 1072, 1103], ''house'' \<mapsto> [49, 53, 48]]"

definition broken_data :: offices_data where
  "broken_data = [([1072, 1083, 1084, 1072, 1090, 1099], [broken_office])]"

text \<open>The details of the match of the row with the office.\<close>

definition example_details :: ustr where
  "example_details =
     [1053, 1072, 1081, 1076, 1077, 1085, 58, 32, 1040, 1083, 1084, 1072, 1090, 1099, 44, 32,
      1091, 1083, 46, 32, 1040, 1073, 1072, 1103, 44, 32, 49, 53, 48, 32, 40, 1091, 1083, 1080,
      1094, 1072, 58, 32, 49, 46, 48, 48, 44, 32, 1076, 1086, 1084, 58, 32, 49, 46, 48, 48, 41]"

text \<open>The spec's words: the first run of decimal digits, or no numeric part.\<close>

definition first_digit_run :: "ustr \<Rightarrow> ustr option" where
  "first_digit_run s =
     (let t = dropWhile (\<lambda>c. \<not> py_isdigit c) s
      in if t = [] then None else Some (takeWhile py_isdigit t))"

text \<open>The office list of a key of an index, empty when the key is absent.\<close>

definition bucket :: "offices_data \<Rightarrow> ustr \<Rightarrow> office list" where
  "bucket cache key = (case map_of cache key of None \<Rightarrow> [] | Some offices \<Rightarrow> offices)"

text \<open>One round of the loop of \<open>_prepare_search_cache\<close>.\<close>

definition cache_step :: "ustr \<times> office list \<Rightarrow> offices_data \<Rightarrow> offices_data" where
  "cache_step = (\<lambda>(settlement, offices) cache. cache_extend (normalize_text settlement) offices cache)"

text \<open>A database with two spellings of one settlement: almaty and g. almaty.\<close>

definition two_spellings :: offices_data where
  "two_spellings =
     [([1072, 1083, 1084, 1072, 1090, 1099], [example_office]),
      ([1075, 46, 32, 1072, 1083, 1084, 1072, 1090, 1099], [broken_office])]"

text \<open>
  A database with two spellings of Shymkent in Latin letters that differ in the case of
  the first letter only, the capital S with cedilla U+015E and the small one U+015F.
\<close>

definition two_cases :: offices_data where
  "two_cases =
     [([350, 121, 109, 107, 101, 110, 116], [example_office]),
      ([351, 121, 109, 107, 101, 110, 116], [broken_office])]"



section \<open>Evaluation\<close>

lemmas text_eval =
  py_isspace_def py_lower_def py_lower_cp_def py_strip_def collapse_spaces_def
  py_split.simps py_replace_def apply_replacements_def replacements_def
  re_sub_def re_sub_from.simps leading_marker_rx_def trailing_marker_rx_def markers_def
  rx_lit_def normalize_text_def Let_def

lemmas config_eval = SETTLEMENT_MATCH_THRESHOLD_def PARTIAL_MATCH_THRESHOLD_def
  STREET_WEIGHT_def HOUSE_WEIGHT_def

section \<open>Rounding is monotone: facts about the scores\<close>

lemma fmul_mono_left: "0 \<le> w \<Longrightarrow> x \<le> y \<Longrightarrow> fmul x w \<le> fmul y w"
  unfolding fmul_def by (intro fl_mono mult_right_mono)

lemma fadd_mono: "x \<le> x' \<Longrightarrow> y \<le> y' \<Longrightarrow> fadd x y \<le> fadd x' y'"
  unfolding fadd_def by (intro fl_mono add_mono)

lemma fmul_nonneg: "0 \<le> x \<Longrightarrow> 0 \<le> y \<Longrightarrow> 0 \<le> fmul x y"
  unfolding fmul_def by (intro fl_nonneg mult_nonneg_nonneg)

lemma weights_nonneg: "0 \<le> STREET_WEIGHT" "0 \<le> HOUSE_WEIGHT" "0 \<le> fl (3 / 10)"
  by (simp_all add: config_eval fl_nonneg)

lemma composite_mono_street:
  "st \<le> st' \<Longrightarrow> composite s st h \<le> composite s st' h"
  unfolding composite_def
  by (intro fadd_mono fmul_mono_left weights_nonneg order_refl)

lemma composite_mono_house:
  "h \<le> h' \<Longrightarrow> composite s st h \<le> composite s st h'"
  unfolding composite_def
  by (intro fadd_mono fmul_mono_left weights_nonneg order_refl)

lemma match_street_and_house_score:
  assumes "match_street_and_house street house office s = Inr r"
  shows "sm_score r = composite s (sm_street_similarity r) (sm_house_similarity r)"
    and "sm_street_similarity r =
           calculate_similarity (normalize_text street)
             (normalize_text (case office ''street'' of Some t \<Rightarrow> t | None \<Rightarrow> []))"
    and "sm_house_similarity r =
           calculate_house_similarity house (case office ''house'' of Some t \<Rightarrow> t | None \<Rightarrow> [])"
  using assms
  by (auto simp: match_street_and_house_def Let_def split: option.splits)

lemma ratio_nonneg: "0 \<le> ratio a b"
  by (simp add: ratio_def calculate_ratio_def fdiv_def fmul_def float_of_nat_def fl_nonneg)

lemma calculate_similarity_nonneg: "0 \<le> calculate_similarity a b"
  by (simp add: calculate_similarity_def ratio_nonneg)

lemma calculate_house_similarity_nonneg: "0 \<le> calculate_house_similarity a b"
  by (simp add: calculate_house_similarity_def Let_def calculate_similarity_nonneg fl_nonneg)

lemma score_floor_value: "score_floor = 607985949695017 / 2251799813685248"
  by (simp add: score_floor_def float_eval)

lemma composite_floor:
  assumes "SETTLEMENT_MATCH_THRESHOLD \<le> s" "0 \<le> st" "0 \<le> h"
  shows "score_floor \<le> composite s st h"
proof -
  have a: "fmul (fl (9 / 10)) (fl (3 / 10)) \<le> fmul s (fl (3 / 10))"
    using assms(1) by (intro fmul_mono_left weights_nonneg) (simp add: config_eval)
  have b: "0 \<le> fmul st STREET_WEIGHT" "0 \<le> fmul h HOUSE_WEIGHT"
    using assms by (simp_all add: fmul_nonneg weights_nonneg)
  have "fl (fmul (fl (9 / 10)) (fl (3 / 10))) \<le> fadd (fmul s (fl (3 / 10))) (fmul st STREET_WEIGHT)"
    unfolding fadd_def using a b by (intro fl_mono) linarith
  then have "fl (fmul (fl (9 / 10)) (fl (3 / 10)))
      \<le> fadd (fmul s (fl (3 / 10))) (fmul st STREET_WEIGHT) + fmul h HOUSE_WEIGHT"
    using b by linarith
  then have "fl (fl (fmul (fl (9 / 10)) (fl (3 / 10))))
      \<le> fl (fadd (fmul s (fl (3 / 10))) (fmul st STREET_WEIGHT) + fmul h HOUSE_WEIGHT)"
    by (rule fl_mono)
  then have "fl (fl (fmul (fl (9 / 10)) (fl (3 / 10))))
      \<le> fadd (fadd (fmul s (fl (3 / 10))) (fmul st STREET_WEIGHT)) (fmul h HOUSE_WEIGHT)"
    by (simp only: fadd_def)
  then show ?thesis by (simp add: score_floor_def composite_def)
qed


lemma score_floor_pos: "0 < score_floor"
  by (simp add: score_floor_value)

lemma match_street_and_house_floor:
  assumes "match_street_and_house street house office s = Inr r" "SETTLEMENT_MATCH_THRESHOLD \<le> s"
  shows "score_floor \<le> sm_score r"
  using match_street_and_house_score [OF assms(1)] assms(2)
  by (simp add: composite_floor calculate_similarity_nonneg calculate_house_similarity_nonneg)

lemma scan_offices_ok:
  assumes "SETTLEMENT_MATCH_THRESHOLD \<le> s"
  shows "best_ok st \<Longrightarrow> scan_offices street house s offices st = Inr st' \<Longrightarrow>
         best_ok st' \<and> ((offices \<noteq> [] \<or> fst st \<noteq> None) \<longrightarrow> fst st' \<noteq> None)"
proof (induction offices arbitrary: st)
  case Nil
  then show ?case by simp
next
  case (Cons office offices)
  obtain best best_score where st: "st = (best, best_score)" by (cases st) auto
  obtain r where r: "match_street_and_house street house office s = Inr r"
    using Cons.prems(2) by (cases "match_street_and_house street house office s") (auto simp: st)
  let ?new = "if best_score < sm_score r
              then (Some \<lparr>bm_office = office, bm_settlement_score = s,
                          bm_total_score = sm_score r, bm_details = sm_details r\<rparr>, sm_score r)
              else (best, best_score)"
  have floor: "score_floor \<le> sm_score r"
    by (rule match_street_and_house_floor [OF r assms])
  have ok: "best_ok ?new"
    using Cons.prems(1) floor by (cases best) (auto simp: best_ok_def st)
  have some: "fst ?new \<noteq> None"
    using Cons.prems(1) floor score_floor_pos by (cases best) (auto simp: best_ok_def st)
  have "scan_offices street house s offices ?new = Inr st'"
    using Cons.prems(2) by (simp add: st r)
  from Cons.IH [OF ok this] some show ?case by simp
qed

lemma scan_settlements_ok:
  "\<forall>m \<in> set ms. SETTLEMENT_MATCH_THRESHOLD \<le> st_score m \<Longrightarrow> best_ok st \<Longrightarrow>
   scan_settlements street house ms st = Inr st' \<Longrightarrow>
   best_ok st' \<and> (((\<exists>m \<in> set ms. st_offices m \<noteq> []) \<or> fst st \<noteq> None) \<longrightarrow> fst st' \<noteq> None)"
proof (induction ms arbitrary: st)
  case Nil
  then show ?case by simp
next
  case (Cons m ms)
  obtain st1 where st1: "scan_offices street house (st_score m) (st_offices m) st = Inr st1"
    using Cons.prems(3) by (cases "scan_offices street house (st_score m) (st_offices m) st") auto
  have thr: "SETTLEMENT_MATCH_THRESHOLD \<le> st_score m" using Cons.prems(1) by simp
  from scan_offices_ok [OF thr Cons.prems(2) st1]
  have ok1: "best_ok st1" and some1: "(st_offices m \<noteq> [] \<or> fst st \<noteq> None) \<longrightarrow> fst st1 \<noteq> None"
    by simp_all
  have rest: "scan_settlements street house ms st1 = Inr st'"
    using Cons.prems(3) by (simp add: st1)
  have "\<forall>m \<in> set ms. SETTLEMENT_MATCH_THRESHOLD \<le> st_score m" using Cons.prems(1) by simp
  from Cons.IH [OF this ok1 rest] some1 show ?case by auto
qed

lemma find_matching_settlements_set:
  "set (find_matching_settlements cache q) =
     {m \<in> set (settlement_candidates cache (normalize_text q)). SETTLEMENT_MATCH_THRESHOLD \<le> st_score m}"
  by (auto simp: find_matching_settlements_def sort_reverse_def)

lemma find_matching_settlements_threshold:
  "\<forall>m \<in> set (find_matching_settlements cache q). SETTLEMENT_MATCH_THRESHOLD \<le> st_score m"
  by (simp add: find_matching_settlements_set)

lemma best_ok_start: "best_ok (None, 0)"
  by (simp add: best_ok_def)

lemma match_address_row_num: "mr_row_num (match_address cache a) = ad_row_num a"
  by (auto simp: match_address_def match_address_try_def determine_status_def Let_def
      split: sum.splits option.splits prod.splits)

section \<open>The example, evaluated\<close>

lemma normalize_abaya: "normalize_text [1040, 1073, 1072, 1103] = [1072, 1073, 1072, 1103]"
  by (simp add: text_eval)

lemma normalize_ul_abaya:
  "normalize_text [1091, 1083, 46, 32, 1040, 1073, 1072, 1103] = [1072, 1073, 1072, 1103]"
  by (simp add: text_eval)

lemma normalize_Almaty:
  "normalize_text [1040, 1083, 1084, 1072, 1090, 1099] = [1072, 1083, 1084, 1072, 1090, 1099]"
  by (simp add: text_eval)

lemma normalize_almaty:
  "normalize_text [1072, 1083, 1084, 1072, 1090, 1099] = [1072, 1083, 1084, 1072, 1090, 1099]"
  by (simp add: text_eval)

lemma house_150: "calculate_house_similarity [49, 53, 48] [49, 53, 48] = 1"
  by (simp add: calculate_house_similarity_def text_eval)

lemma format_2f_one: "format_2f 1 = [49, 46, 48, 48]"
  by (simp add: format_2f_def decimal.simps round_half_even_def Let_def)

lemma float_09: "fl (9 / 10) = 8106479329266893 / 9007199254740992"
  by (simp add: fl_eval)

lemma float_04: "fl (4 / 10) = 3602879701896397 / 9007199254740992"
  by (simp add: fl_eval)

lemma float_13: "fl (13 / 10) = 5854679515581645 / 4503599627370496"
  by (simp add: fl_eval)


lemma composite_ones: "composite 1 1 1 = 5854679515581645 / 4503599627370496"
  by (simp add: composite_def config_eval float_eval)

lemma example_street_match:
  "match_street_and_house (ad_street example_row) (ad_house example_row) example_office 1
   = Inr \<lparr>sm_score = 5854679515581645 / 4503599627370496, sm_street_similarity = 1,
           sm_house_similarity = 1, sm_details = example_details\<rparr>"
  by (simp add: example_office_def example_row_def match_street_and_house_def Let_def
      calculate_similarity_def normalize_abaya normalize_ul_abaya house_150 format_2f_one
      composite_ones example_details_def)

lemma example_settlements:
  "find_matching_settlements example_data (ad_settlement example_row)
   = [\<lparr>st_name = [1072, 1083, 1084, 1072, 1090, 1099], st_offices = [example_office],
        st_score = 1\<rparr>]"
  by (simp add: example_data_def example_row_def find_matching_settlements_def
      settlement_candidates_def sort_reverse_def calculate_similarity_def normalize_Almaty
      SETTLEMENT_MATCH_THRESHOLD_def float_09)

lemma example_cache: "prepare_search_cache example_data = example_data"
  by (simp add: prepare_search_cache_def example_data_def normalize_almaty)

lemma example_scan:
  "scan_settlements (ad_street example_row) (ad_house example_row)
     (find_matching_settlements (prepare_search_cache example_data) (ad_settlement example_row))
     (None, 0)
   = Inr (Some \<lparr>bm_office = example_office, bm_settlement_score = 1,
                 bm_total_score = 5854679515581645 / 4503599627370496,
                 bm_details = example_details\<rparr>,
          5854679515581645 / 4503599627370496)"
  by (simp add: example_cache example_settlements example_street_match)

lemma broken_street_match:
  "match_street_and_house (ad_street example_row) (ad_house example_row) broken_office 1
   = Inl (KeyError ''settlement'')"
  by (simp add: broken_office_def match_street_and_house_def Let_def)

lemma broken_cache: "prepare_search_cache broken_data = broken_data"
  by (simp add: prepare_search_cache_def broken_data_def normalize_almaty)

lemma broken_settlements:
  "find_matching_settlements broken_data (ad_settlement example_row)
   = [\<lparr>st_name = [1072, 1083, 1084, 1072, 1090, 1099], st_offices = [broken_office],
        st_score = 1\<rparr>]"
  by (simp add: broken_data_def example_row_def find_matching_settlements_def
      settlement_candidates_def sort_reverse_def calculate_similarity_def normalize_Almaty
      SETTLEMENT_MATCH_THRESHOLD_def float_09)

lemma broken_try:
  "match_address_try (prepare_search_cache broken_data) example_row = Inl (KeyError ''settlement'')"
  by (simp add: match_address_try_def broken_cache broken_settlements broken_street_match)

section \<open>The composite score\<close>

text \<open>
  Claim C2. The score of an office is \<open>settlement_score * 0.3 + street_similarity *
  STREET_WEIGHT + house_similarity * HOUSE_WEIGHT\<close>, computed in floats from left to
  right, with the weights 0.7 and 0.3 of the configuration. It does not decrease when the
  street similarity or the house similarity grows and the other inputs stay fixed, and
  for three similarities of 1 it is the float 1.3.
\<close>

theorem composite_score_formula:
  "(match_street_and_house street house office s = Inr r \<longrightarrow>
      sm_score r = composite s (sm_street_similarity r) (sm_house_similarity r))
   \<and> composite s st h =
       fadd (fadd (fmul s (fl (3 / 10))) (fmul st STREET_WEIGHT)) (fmul h HOUSE_WEIGHT)
   \<and> STREET_WEIGHT = fl (7 / 10) \<and> HOUSE_WEIGHT = fl (3 / 10)
   \<and> (st \<le> st' \<longrightarrow> composite s st h \<le> composite s st' h)
   \<and> (h \<le> h' \<longrightarrow> composite s st h \<le> composite s st h')
   \<and> composite 1 1 1 = fl (13 / 10)"
proof (intro conjI impI)
  assume "match_street_and_house street house office s = Inr r"
  then show "sm_score r = composite s (sm_street_similarity r) (sm_house_similarity r)"
    by (rule match_street_and_house_score(1))
next
  show "composite s st h =
      fadd (fadd (fmul s (fl (3 / 10))) (fmul st STREET_WEIGHT)) (fmul h HOUSE_WEIGHT)"
    by (simp only: composite_def)
next
  show "STREET_WEIGHT = fl (7 / 10)" by (simp only: STREET_WEIGHT_def)
next
  show "HOUSE_WEIGHT = fl (3 / 10)" by (simp only: HOUSE_WEIGHT_def)
next
  assume "st \<le> st'"
  then show "composite s st h \<le> composite s st' h" by (rule composite_mono_street)
next
  assume "h \<le> h'"
  then show "composite s st h \<le> composite s st h'" by (rule composite_mono_house)
next
  show "composite 1 1 1 = fl (13 / 10)"
    by (simp only: composite_ones float_13)
qed

theorem composite_score_formula_witness:
  "composite 1 (1 / 2) 0 \<le> composite 1 1 0 \<and> composite 1 1 0 \<le> composite 1 1 1
   \<and> composite 1 1 1 = fl (13 / 10)
   \<and> match_street_and_house (ad_street example_row) (ad_house example_row) example_office 1
       = Inr \<lparr>sm_score = composite 1 1 1, sm_street_similarity = 1,
               sm_house_similarity = 1, sm_details = example_details\<rparr>"
proof -
  let ?r = "\<lparr>sm_score = 5854679515581645 / 4503599627370496, sm_street_similarity = 1,
             sm_house_similarity = 1, sm_details = example_details\<rparr>"
  note t = composite_score_formula [of "ad_street example_row" "ad_house example_row"
      example_office 1 ?r "1 / 2" 0 1 1]
  have street: "(1 / 2 :: real) \<le> 1 \<longrightarrow> composite 1 (1 / 2) 0 \<le> composite 1 1 0"
    using t by (elim conjE)
  have house: "(0 :: real) \<le> 1 \<longrightarrow> composite 1 1 0 \<le> composite 1 1 1"
    using composite_score_formula [of "ad_street example_row" "ad_house example_row"
      example_office 1 ?r 1 0 1 1] by (elim conjE)
  have ones: "composite 1 1 1 = fl (13 / 10)"
    using t by (elim conjE)
  have score: "match_street_and_house (ad_street example_row) (ad_house example_row)
      example_office 1 = Inr ?r \<longrightarrow> sm_score ?r = composite 1 (sm_street_similarity ?r) (sm_house_similarity ?r)"
    using t by (elim conjE)
  then have "composite 1 1 1 = 5854679515581645 / 4503599627370496"
    using example_street_match by simp
  then show ?thesis
    using street house ones example_street_match by simp
qed


section \<open>The status is a function of the best score\<close>


lemma scan_from_start:
  assumes "scan_settlements street house (find_matching_settlements cache q) (None, 0)
           = Inr (best, best_score)"
  shows "best_ok (best, best_score)"
    and "(\<exists>m \<in> set (find_matching_settlements cache q). st_offices m \<noteq> []) \<longrightarrow> best \<noteq> None"
  using scan_settlements_ok [OF find_matching_settlements_threshold best_ok_start assms]
  by simp_all

text \<open>
  Claim C1. When the loops of \<open>match_address\<close> end with a best match, its total score is
  the best score, and the status of the result depends on that score alone: Da (confirmed)
  from the float 0.9 on, Proverit (needs review) from \<open>PARTIAL_MATCH_THRESHOLD\<close>, the
  float 0.4, up to 0.9, and Net (not found) below. A best score of exactly 0.9 is
  confirmed. The three statuses are different strings.
\<close>

theorem status_of_best_score:
  assumes "scan_settlements (ad_street a) (ad_house a)
             (find_matching_settlements cache (ad_settlement a)) (None, 0)
           = Inr (Some best, best_score)"
  shows "bm_total_score best = best_score
     \<and> mr_status (match_address cache a) =
         (if fl (9 / 10) \<le> best_score then status_yes
          else if PARTIAL_MATCH_THRESHOLD \<le> best_score then status_check
          else status_no)
     \<and> (best_score = fl (9 / 10) \<longrightarrow> mr_status (match_address cache a) = status_yes)
     \<and> PARTIAL_MATCH_THRESHOLD = fl (4 / 10)
     \<and> status_yes \<noteq> status_check \<and> status_yes \<noteq> status_no \<and> status_check \<noteq> status_no"
proof -
  have score: "bm_total_score best = best_score"
    using scan_from_start(1) [OF assms] by (simp add: best_ok_def)
  have nonempty: "find_matching_settlements cache (ad_settlement a) \<noteq> []"
  proof
    assume "find_matching_settlements cache (ad_settlement a) = []"
    then show False using assms by simp
  qed
  have "match_address cache a = determine_status best a"
    using assms nonempty by (simp add: match_address_def match_address_try_def Let_def)
  then have status: "mr_status (match_address cache a) =
      (if fl (9 / 10) \<le> best_score then status_yes
       else if PARTIAL_MATCH_THRESHOLD \<le> best_score then status_check
       else status_no)"
    by (simp add: determine_status_def Let_def score)
  show ?thesis
    using score status
    by (simp add: PARTIAL_MATCH_THRESHOLD_def status_yes_def status_check_def status_no_def)
qed

theorem status_of_best_score_witness:
  "mr_status (match_address (prepare_search_cache example_data) example_row) = status_yes
   \<and> fl (9 / 10) \<le> fl (13 / 10)"
  using status_of_best_score [OF example_scan]
  by (simp add: float_09 float_13)

section \<open>A fault in a row becomes a result\<close>

text \<open>
  Claim C5. An exception raised in the body of the \<open>try\<close> statement of \<open>match_address\<close>
  does not leave the function: the result has the row number of the row, the status
  Proverit (needs review) and the details Oshibka pri proverke: followed by the text of
  the exception. Every row handed to the matcher gets one result, in the order of the
  rows and under its own row number.
\<close>

theorem row_fault_is_caught:
  "(match_address_try cache a = Inl e \<longrightarrow>
      match_address cache a =
        \<lparr>mr_row_num = ad_row_num a, mr_status = status_check,
         mr_details =
           [1054, 1096, 1080, 1073, 1082, 1072, 32, 1087, 1088, 1080, 32, 1087, 1088, 1086,
            1074, 1077, 1088, 1082, 1077, 58, 32] @ str_of_error e\<rparr>)
   \<and> length (match_rows cache rows) = length rows
   \<and> map mr_row_num (match_rows cache rows) = map ad_row_num rows"
proof (intro conjI impI)
  assume "match_address_try cache a = Inl e"
  then show "match_address cache a =
      \<lparr>mr_row_num = ad_row_num a, mr_status = status_check,
       mr_details =
         [1054, 1096, 1080, 1073, 1082, 1072, 32, 1087, 1088, 1080, 32, 1087, 1088, 1086,
          1074, 1077, 1088, 1082, 1077, 58, 32] @ str_of_error e\<rparr>"
    by (simp add: match_address_def)
next
  show "length (match_rows cache rows) = length rows"
    by (simp add: match_rows_def)
next
  show "map mr_row_num (match_rows cache rows) = map ad_row_num rows"
    by (simp add: match_rows_def match_address_row_num)
qed

theorem row_fault_is_caught_witness:
  "match_address (prepare_search_cache broken_data) example_row =
     \<lparr>mr_row_num = 9, mr_status = status_check,
      mr_details =
        [1054, 1096, 1080, 1073, 1082, 1072, 32, 1087, 1088, 1080, 32, 1087, 1088, 1086, 1074,
         1077, 1088, 1082, 1077, 58, 32, 39, 115, 101, 116, 116, 108, 101, 109, 101, 110, 116, 39]\<rparr>
   \<and> length (match_rows (prepare_search_cache broken_data) [example_row, example_row]) = 2"
  using row_fault_is_caught [of "prepare_search_cache broken_data" example_row
      "KeyError ''settlement''" "[example_row, example_row]"] broken_try
  by (simp add: example_row_def ustr_of_def)

section \<open>An office in a candidate bucket is a best match unless a record is faulty\<close>







section \<open>The first run of digits\<close>

lemma rx_star_chr:
  "length (ms_rest s) \<le> n \<Longrightarrow>
   rx_star (rx_match (Chr p)) n Some s =
     Some (s\<lparr>ms_pos := ms_pos s + length (takeWhile p (ms_rest s)),
            ms_rest := dropWhile p (ms_rest s)\<rparr>)"
proof (induction n arbitrary: s)
  case 0
  then show ?case by simp
next
  case (Suc n)
  show ?case
  proof (cases "ms_rest s")
    case Nil
    then show ?thesis by simp
  next
    case (Cons c cs)
    show ?thesis
    proof (cases "p c")
      case True
      let ?s' = "s\<lparr>ms_pos := Suc (ms_pos s), ms_rest := cs\<rparr>"
      have "length (ms_rest ?s') \<le> n" using Suc.prems Cons by simp
      from Suc.IH [OF this] show ?thesis using True Cons by simp
    next
      case False
      then show ?thesis using Cons by simp
    qed
  qed
qed

lemma search_digit_run:
  "search_from (Seq (Chr p) (Star (Chr p))) i s =
     (case dropWhile (\<lambda>c. \<not> p c) s of
        [] \<Rightarrow> None
      | c # cs \<Rightarrow>
          Some (i + length (takeWhile (\<lambda>c. \<not> p c) s),
                \<lparr>ms_pos = i + length (takeWhile (\<lambda>c. \<not> p c) s) + length (takeWhile p (c # cs)),
                 ms_rest = dropWhile p (c # cs), ms_groups = []\<rparr>))"
proof (induction s arbitrary: i)
  case Nil
  then show ?case by simp
next
  case (Cons c cs)
  show ?case
  proof (cases "p c")
    case True
    then show ?thesis by (simp add: rx_star_chr)
  next
    case False
    show ?thesis
    proof (cases "dropWhile (\<lambda>c. \<not> p c) cs")
      case Nil
      then show ?thesis using False by (simp add: Cons.IH del: dropWhile_eq_Nil_conv)
    next
      case (Cons d ds)
      then show ?thesis using False by (simp add: Cons.IH del: dropWhile_eq_Nil_conv)
    qed
  qed
qed

lemma extract_house_number_eq: "s \<noteq> [] \<Longrightarrow> extract_house_number s = first_digit_run s"
proof -
  assume "s \<noteq> []"
  let ?pre = "takeWhile (\<lambda>c. \<not> py_isdigit c) s"
  let ?t = "dropWhile (\<lambda>c. \<not> py_isdigit c) s"
  have split: "s = ?pre @ ?t" by simp
  show ?thesis
  proof (cases ?t)
    case Nil
    have "extract_house_number s = None"
      using \<open>s \<noteq> []\<close>
      by (simp only: extract_house_number_def re_search_def rx_plus_def search_digit_run Nil
          list.case option.case if_False)
    moreover have "first_digit_run s = None"
      by (simp only: first_digit_run_def Let_def Nil simp_thms if_True)
    ultimately show ?thesis by simp
  next
    case (Cons c cs)
    have d: "drop (length ?pre) s = c # cs"
      using Cons by (metis append_eq_conv_conj split)
    have t: "take (length (takeWhile py_isdigit (c # cs))) (c # cs) = takeWhile py_isdigit (c # cs)"
      by (metis append_eq_conv_conj takeWhile_dropWhile_id)
    have "extract_house_number s = Some (takeWhile py_isdigit (c # cs))"
      using \<open>s \<noteq> []\<close>
      by (simp add: extract_house_number_def re_search_def rx_plus_def search_digit_run Cons d t
          del: takeWhile.simps dropWhile.simps)
    moreover have "first_digit_run s = Some (takeWhile py_isdigit (c # cs))"
      by (simp only: first_digit_run_def Let_def Cons list.distinct simp_thms if_False)
    ultimately show ?thesis by simp
  qed
qed

lemma first_digit_run_truthy: "first_digit_run s = Some r \<Longrightarrow> r \<noteq> []"
proof -
  assume a: "first_digit_run s = Some r"
  let ?t = "dropWhile (\<lambda>c. \<not> py_isdigit c) s"
  show ?thesis
  proof (cases ?t)
    case Nil
    have "first_digit_run s = None"
      by (simp only: first_digit_run_def Let_def Nil simp_thms if_True)
    then show ?thesis using a by simp
  next
    case (Cons c cs)
    have "py_isdigit (hd ?t)"
      using hd_dropWhile [of "\<lambda>c. \<not> py_isdigit c" s] Cons by simp
    then have c: "py_isdigit c" using Cons by simp
    have "first_digit_run s = Some (takeWhile py_isdigit (c # cs))"
      by (simp only: first_digit_run_def Let_def Cons list.distinct simp_thms if_False)
    then show ?thesis using a c by auto
  qed
qed

lemma lower_12S: "py_lower [49, 50, 350] = [49, 50, 351]"
  by (simp add: py_lower_def py_lower_cp_def lower_ranges_def)

lemma lower_12s: "py_lower [49, 50, 351] = [49, 50, 351]"
  by (simp add: py_lower_def py_lower_cp_def lower_ranges_def)

text \<open>
  Claim C3. The house comparator is tiered: 0.0 when either string is empty; else 1.0
  when the two strings are equal after trimming and lower-casing; else the float 0.9 when
  both strings have a first run of decimal digits and the two runs are equal; else the
  generic similarity of the raw strings. For 12 and 12A it returns 0.9. Lower-casing is
  that of \<open>str.lower\<close>: 12A and 12a with a space before it, and 12 with the capital S with
  cedilla, U+015E, and 12 with the small one, U+015F, are equal houses.
\<close>

theorem house_similarity_tiers:
  "calculate_house_similarity h1 h2 =
     (if h1 = [] \<or> h2 = [] then 0
      else if py_lower (py_strip h1) = py_lower (py_strip h2) then 1
      else if first_digit_run h1 \<noteq> None \<and> first_digit_run h1 = first_digit_run h2
           then fl (9 / 10)
      else calculate_similarity h1 h2)
   \<and> calculate_house_similarity [49, 50] [49, 50, 65] = fl (9 / 10)
   \<and> calculate_house_similarity [49, 50, 65] [32, 49, 50, 97] = 1
   \<and> calculate_house_similarity [49, 50, 350] [49, 50, 351] = 1"
proof -
  have run: "\<And>s. truthy (first_digit_run s) = (first_digit_run s \<noteq> None)"
    using first_digit_run_truthy by (case_tac "first_digit_run s") auto
  have tiers: "calculate_house_similarity h1 h2 =
     (if h1 = [] \<or> h2 = [] then 0
      else if py_lower (py_strip h1) = py_lower (py_strip h2) then 1
      else if first_digit_run h1 \<noteq> None \<and> first_digit_run h1 = first_digit_run h2
           then fl (9 / 10)
      else calculate_similarity h1 h2)" for h1 h2
    by (auto simp: calculate_house_similarity_def Let_def extract_house_number_eq run)
  have a: "calculate_house_similarity [49, 50] [49, 50, 65] = fl (9 / 10)"
    by (simp add: calculate_house_similarity_def extract_house_number_def re_search_def
        rx_plus_def py_isdigit_def nd_ranges_def text_eval)
  have b: "calculate_house_similarity [49, 50, 65] [32, 49, 50, 97] = 1"
    by (simp add: tiers text_eval)
  have "py_strip [49, 50, 350] = [49, 50, 350]" "py_strip [49, 50, 351] = [49, 50, 351]"
    by (simp_all add: py_strip_def py_isspace_def)
  then have c: "calculate_house_similarity [49, 50, 350] [49, 50, 351] = 1"
    by (simp add: tiers lower_12S lower_12s)
  show ?thesis using tiers [of h1 h2] a b c by simp
qed

theorem house_similarity_tiers_witness:
  "calculate_house_similarity [49, 50] [] = 0
   \<and> calculate_house_similarity [49, 50] [32, 49, 50] = 1
   \<and> calculate_house_similarity [49, 50, 1040] [49, 50, 1072] = 1
   \<and> calculate_house_similarity [49, 50] [49, 50, 65] = fl (9 / 10)
   \<and> calculate_house_similarity [65] [66] = calculate_similarity [65] [66]"
proof -
  have a: "calculate_house_similarity [49, 50] [] = 0"
    using house_similarity_tiers [of "[49, 50]" "[]"] by simp
  have b: "calculate_house_similarity [49, 50] [32, 49, 50] = 1"
    using house_similarity_tiers [of "[49, 50]" "[32, 49, 50]"]
    by (simp add: text_eval)
  have b': "calculate_house_similarity [49, 50, 1040] [49, 50, 1072] = 1"
    using house_similarity_tiers [of "[49, 50, 1040]" "[49, 50, 1072]"]
    by (simp add: text_eval)
  have c: "calculate_house_similarity [49, 50] [49, 50, 65] = fl (9 / 10)"
    using house_similarity_tiers [of "[49, 50]" "[49, 50, 65]"] by simp
  have d: "calculate_house_similarity [65] [66] = calculate_similarity [65] [66]"
    using house_similarity_tiers [of "[65]" "[66]"]
    by (simp add: text_eval first_digit_run_def py_isdigit_def nd_ranges_def)
  show ?thesis using a b b' c d by simp
qed

section \<open>Similarity\<close>

lemma ratio_tide_diet: "ratio [116, 105, 100, 101] [100, 105, 101, 116] = 1 / 4"
  by (simp add: difflib_eval)

lemma ratio_diet_tide: "ratio [100, 105, 101, 116] [116, 105, 100, 101] = 1 / 2"
  by (simp add: difflib_eval)

text \<open>
  Claim C4, as stated, fails twice. The similarity of the empty string with itself is
  0.0, not 1.0: the test for an empty argument comes first. And the ratio of
  \<open>SequenceMatcher\<close> depends on the order of its arguments: the similarity of tide and
  diet is 0.25, that of diet and tide is 0.5.
\<close>

theorem similarity_counterexample:
  "calculate_similarity [] [] = 0
   \<and> calculate_similarity [116, 105, 100, 101] [100, 105, 101, 116] = 1 / 4
   \<and> calculate_similarity [100, 105, 101, 116] [116, 105, 100, 101] = 1 / 2"
  by (simp add: calculate_similarity_def ratio_tide_diet ratio_diet_tide)

text \<open>
  Claim C4, amended. The similarity of a string that is not empty with itself is 1.0;
  the similarity of any string with the empty string, in either order, is 0.0; and the
  similarity of two strings does not depend on their order when they are equal or one of
  them is empty.
\<close>

theorem similarity_identity_and_empty:
  "(s \<noteq> [] \<longrightarrow> calculate_similarity s s = 1)
   \<and> calculate_similarity s [] = 0 \<and> calculate_similarity [] s = 0
   \<and> (a = [] \<or> b = [] \<or> a = b \<longrightarrow> calculate_similarity a b = calculate_similarity b a)"
  by (auto simp: calculate_similarity_def)

theorem similarity_identity_and_empty_witness:
  "calculate_similarity [116, 105, 100, 101] [116, 105, 100, 101] = 1
   \<and> calculate_similarity [116, 105, 100, 101] [] = 0
   \<and> calculate_similarity [] [116, 105, 100, 101] = calculate_similarity [116, 105, 100, 101] []"
  using similarity_identity_and_empty [of "[116, 105, 100, 101]" "[]" "[116, 105, 100, 101]"]
  by simp

section \<open>The reference index\<close>

lemma cache_extend_keys:
  "map fst (cache_extend key offices cache) =
     (if key \<in> set (map fst cache) then map fst cache else map fst cache @ [key])"
proof (induction cache)
  case Nil
  then show ?case by simp
next
  case (Cons x cache)
  obtain k v where x: "x = (k, v)" by (cases x) auto
  show ?case using Cons.IH by (cases "k = key") (auto simp: x)
qed

lemma cache_extend_map_of:
  "map_of (cache_extend key offices cache) k =
     (if k = key then Some (bucket cache key @ offices) else map_of cache k)"
  by (induction cache) (auto simp: bucket_def)

lemma cache_extend_distinct:
  "distinct (map fst cache) \<Longrightarrow> distinct (map fst (cache_extend key offices cache))"
  by (simp add: cache_extend_keys)

lemma cache_step_map_of:
  "map_of (cache_step (s, offices) cache) k =
     (if k = normalize_text s then Some (bucket cache k @ offices) else map_of cache k)"
  by (simp add: cache_step_def cache_extend_map_of)

lemma cache_step_bucket:
  "bucket (cache_step (s, offices) cache) k =
     (if k = normalize_text s then bucket cache k @ offices else bucket cache k)"
  by (simp add: bucket_def cache_step_map_of)

lemma cache_step_keys:
  "map fst (cache_step (s, offices) cache) =
     (if normalize_text s \<in> set (map fst cache) then map fst cache
      else map fst cache @ [normalize_text s])"
  by (simp add: cache_step_def cache_extend_keys)

lemma no_spelling_no_offices:
  "k \<notin> (\<lambda>(s, offices). normalize_text s) ` set data \<Longrightarrow>
   filter (\<lambda>(s, offices). normalize_text s = k) data = []"
  by (induction data) auto

lemma fold_cache_map_of:
  "map_of (fold cache_step data cache) k =
     (if k \<in> (\<lambda>(s, offices). normalize_text s) ` set data
      then Some (bucket cache k
                 @ concat (map snd (filter (\<lambda>(s, offices). normalize_text s = k) data)))
      else map_of cache k)"
proof (induction data arbitrary: cache)
  case Nil
  then show ?case by simp
next
  case (Cons x data)
  obtain s offices where x: "x = (s, offices)" by (cases x) auto
  have step: "fold cache_step (x # data) cache = fold cache_step data (cache_step (s, offices) cache)"
    by (simp add: x)
  have ih: "map_of (fold cache_step data (cache_step (s, offices) cache)) k =
     (if k \<in> (\<lambda>(s, offices). normalize_text s) ` set data
      then Some (bucket (cache_step (s, offices) cache) k
                 @ concat (map snd (filter (\<lambda>(s, offices). normalize_text s = k) data)))
      else map_of (cache_step (s, offices) cache) k)"
    by (rule Cons.IH)
  show ?case
  proof (cases "normalize_text s = k")
    case True
    then show ?thesis
      by (simp add: step ih x cache_step_bucket cache_step_map_of no_spelling_no_offices)
  next
    case False
    then show ?thesis
      by (auto simp: step ih x cache_step_bucket cache_step_map_of)
  qed
qed

lemma remdups_append_member:
  "x \<in> set ys \<Longrightarrow> remdups (xs @ x # ys) = remdups (xs @ ys)"
  by (induction xs) auto

lemma fold_cache_keys:
  assumes "distinct (map fst cache)"
  shows "map fst (fold cache_step data cache) =
     rev (remdups (rev (map fst cache @ map (\<lambda>(s, offices). normalize_text s) data)))"
  using assms
proof (induction data arbitrary: cache)
  case Nil
  then show ?case by (simp add: distinct_remdups_id)
next
  case (Cons x data)
  obtain s offices where x: "x = (s, offices)" by (cases x) auto
  have step: "fold cache_step (x # data) cache = fold cache_step data (cache_step (s, offices) cache)"
    by (simp add: x)
  have d: "distinct (map fst (cache_step (s, offices) cache))"
    using Cons.prems by (simp add: cache_step_keys)
  have ih: "map fst (fold cache_step data (cache_step (s, offices) cache)) =
     rev (remdups (rev (map fst (cache_step (s, offices) cache)
                        @ map (\<lambda>(s, offices). normalize_text s) data)))"
    by (rule Cons.IH [OF d])
  show ?case
    by (simp add: step ih x cache_step_keys remdups_append_member)
qed

lemma prepare_search_cache_fold: "prepare_search_cache data = fold cache_step data []"
  by (simp add: prepare_search_cache_def cache_step_def)

lemma sort_reverse_sorted: "sorted (rev (map f (sort_reverse f xs)))"
  by (simp add: sort_reverse_def rev_map [symmetric])

lemma sort_reverse_stable:
  "filter (\<lambda>x. f x = k) (sort_reverse f xs) = filter (\<lambda>x. f x = k) xs"
  by (simp add: sort_reverse_def rev_filter [symmetric] sort_key_stable)

lemma sort_reverse_set: "set (sort_reverse f xs) = set xs"
  by (simp add: sort_reverse_def)

lemma sort_reverse_length: "length (sort_reverse f xs) = length xs"
  by (simp add: sort_reverse_def)


lemma normalize_Shymkent:
  "normalize_text [350, 121, 109, 107, 101, 110, 116] = [351, 121, 109, 107, 101, 110, 116]"
  by (simp add: text_eval lower_ranges_def)

lemma normalize_shymkent:
  "normalize_text [351, 121, 109, 107, 101, 110, 116] = [351, 121, 109, 107, 101, 110, 116]"
  by (simp add: text_eval lower_ranges_def)

lemma two_cases_cache:
  "prepare_search_cache two_cases
   = [([351, 121, 109, 107, 101, 110, 116], [example_office, broken_office])]"
  by (simp add: prepare_search_cache_def two_cases_def normalize_Shymkent normalize_shymkent)

lemma normalize_g_almaty:
  "normalize_text [1075, 46, 32, 1072, 1083, 1084, 1072, 1090, 1099]
   = [1072, 1083, 1084, 1072, 1090, 1099]"
  by (simp add: text_eval)

text \<open>
  Claim C6. The keys of the reference index are the normalized settlement names of the
  database, each once, in the order of their first spelling; the bucket of a key is the
  concatenation, in the order of the database, of the office lists of all spellings with
  that normalized name. The lookup scores every bucket by the similarity of the
  normalized query with its key and returns exactly the buckets that reach
  \<open>SETTLEMENT_MATCH_THRESHOLD\<close>, sorted by descending score, the buckets of equal score
  in the order of the index.
\<close>

theorem reference_index:
  "map fst (prepare_search_cache data)
     = rev (remdups (rev (map (\<lambda>(s, offices). normalize_text s) data)))
   \<and> distinct (map fst (prepare_search_cache data))
   \<and> map_of (prepare_search_cache data) k =
       (if k \<in> (\<lambda>(s, offices). normalize_text s) ` set data
        then Some (concat (map snd (filter (\<lambda>(s, offices). normalize_text s = k) data)))
        else None)
   \<and> settlement_candidates cache (normalize_text q) =
       map (\<lambda>(key, offices).
              \<lparr>st_name = key, st_offices = offices,
               st_score = calculate_similarity (normalize_text q) key\<rparr>) cache
   \<and> set (find_matching_settlements cache q) =
       {m \<in> set (settlement_candidates cache (normalize_text q)).
          SETTLEMENT_MATCH_THRESHOLD \<le> st_score m}
   \<and> length (find_matching_settlements cache q) =
       length (filter (\<lambda>m. SETTLEMENT_MATCH_THRESHOLD \<le> st_score m)
                 (settlement_candidates cache (normalize_text q)))
   \<and> sorted (rev (map st_score (find_matching_settlements cache q)))
   \<and> filter (\<lambda>m. st_score m = v) (find_matching_settlements cache q) =
       filter (\<lambda>m. st_score m = v)
         (filter (\<lambda>m. SETTLEMENT_MATCH_THRESHOLD \<le> st_score m)
            (settlement_candidates cache (normalize_text q)))"
proof (intro conjI)
  show keys: "map fst (prepare_search_cache data)
      = rev (remdups (rev (map (\<lambda>(s, offices). normalize_text s) data)))"
    using fold_cache_keys [of "[]" data] by (simp add: prepare_search_cache_fold)
  show "distinct (map fst (prepare_search_cache data))"
    by (simp add: keys)
  show "map_of (prepare_search_cache data) k =
       (if k \<in> (\<lambda>(s, offices). normalize_text s) ` set data
        then Some (concat (map snd (filter (\<lambda>(s, offices). normalize_text s = k) data)))
        else None)"
    by (simp add: prepare_search_cache_fold fold_cache_map_of bucket_def)
  show "settlement_candidates cache (normalize_text q) =
       map (\<lambda>(key, offices).
              \<lparr>st_name = key, st_offices = offices,
               st_score = calculate_similarity (normalize_text q) key\<rparr>) cache"
    by (simp add: settlement_candidates_def)
  show "set (find_matching_settlements cache q) =
       {m \<in> set (settlement_candidates cache (normalize_text q)).
          SETTLEMENT_MATCH_THRESHOLD \<le> st_score m}"
    by (rule find_matching_settlements_set)
  show "length (find_matching_settlements cache q) =
       length (filter (\<lambda>m. SETTLEMENT_MATCH_THRESHOLD \<le> st_score m)
                 (settlement_candidates cache (normalize_text q)))"
    by (simp add: find_matching_settlements_def sort_reverse_length)
  show "sorted (rev (map st_score (find_matching_settlements cache q)))"
    by (simp add: find_matching_settlements_def sort_reverse_sorted)
  show "filter (\<lambda>m. st_score m = v) (find_matching_settlements cache q) =
       filter (\<lambda>m. st_score m = v)
         (filter (\<lambda>m. SETTLEMENT_MATCH_THRESHOLD \<le> st_score m)
            (settlement_candidates cache (normalize_text q)))"
    by (simp only: find_matching_settlements_def sort_reverse_stable)
qed

theorem reference_index_witness:
  "map fst (prepare_search_cache two_spellings) = [[1072, 1083, 1084, 1072, 1090, 1099]]
   \<and> map_of (prepare_search_cache two_spellings) [1072, 1083, 1084, 1072, 1090, 1099]
       = Some [example_office, broken_office]
   \<and> map_of (prepare_search_cache two_spellings) [1072] = None
   \<and> map fst (prepare_search_cache two_cases) = [[351, 121, 109, 107, 101, 110, 116]]
   \<and> map_of (prepare_search_cache two_cases) [351, 121, 109, 107, 101, 110, 116]
       = Some [example_office, broken_office]
   \<and> set (find_matching_settlements example_data [1040, 1083, 1084, 1072, 1090, 1099])
       = {\<lparr>st_name = [1072, 1083, 1084, 1072, 1090, 1099], st_offices = [example_office],
            st_score = 1\<rparr>}
   \<and> set (find_matching_settlements (prepare_search_cache two_cases)
            [350, 121, 109, 107, 101, 110, 116])
       = {\<lparr>st_name = [351, 121, 109, 107, 101, 110, 116],
            st_offices = [example_office, broken_office], st_score = 1\<rparr>}"
proof -
  note n = normalize_almaty normalize_g_almaty normalize_Almaty normalize_Shymkent
    normalize_shymkent
  have a: "map fst (prepare_search_cache two_spellings) = [[1072, 1083, 1084, 1072, 1090, 1099]]"
    using reference_index [of two_spellings] by (simp add: two_spellings_def n)
  have b: "map_of (prepare_search_cache two_spellings) [1072, 1083, 1084, 1072, 1090, 1099]
       = Some [example_office, broken_office]"
    using reference_index [of two_spellings "[1072, 1083, 1084, 1072, 1090, 1099]"]
    by (simp add: two_spellings_def n)
  have c: "map_of (prepare_search_cache two_spellings) [1072] = None"
    using reference_index [of two_spellings "[1072]"]
    by (simp add: two_spellings_def n)
  have a': "map fst (prepare_search_cache two_cases) = [[351, 121, 109, 107, 101, 110, 116]]"
    using reference_index [of two_cases] by (simp add: two_cases_def n)
  have b': "map_of (prepare_search_cache two_cases) [351, 121, 109, 107, 101, 110, 116]
       = Some [example_office, broken_office]"
    using reference_index [of two_cases "[351, 121, 109, 107, 101, 110, 116]"]
    by (simp add: two_cases_def n)
  have d: "set (find_matching_settlements example_data [1040, 1083, 1084, 1072, 1090, 1099])
       = {\<lparr>st_name = [1072, 1083, 1084, 1072, 1090, 1099], st_offices = [example_office],
            st_score = 1\<rparr>}"
    using reference_index [of _ _ example_data "[1040, 1083, 1084, 1072, 1090, 1099]"]
    by (auto simp: example_data_def n calculate_similarity_def SETTLEMENT_MATCH_THRESHOLD_def float_09)
  have d': "set (find_matching_settlements (prepare_search_cache two_cases)
            [350, 121, 109, 107, 101, 110, 116])
       = {\<lparr>st_name = [351, 121, 109, 107, 101, 110, 116],
            st_offices = [example_office, broken_office], st_score = 1\<rparr>}"
    using reference_index [of _ _ "prepare_search_cache two_cases"
        "[350, 121, 109, 107, 101, 110, 116]"]
    by (auto simp: two_cases_cache n calculate_similarity_def SETTLEMENT_MATCH_THRESHOLD_def
        float_09)
  show ?thesis using a b c a' b' d d' by simp
qed

section \<open>The parser goes on to the next pattern\<close>














section \<open>The normalizer strips a marker inside a word\<close>

text \<open>
  Claim C10. The leading-marker pattern is not token-bounded: nothing in it asks for
  whitespace or punctuation after the marker. The one-word input Gorodok (U+0413 U+043E
  U+0440 U+043E U+0434 U+043E U+043A) begins with the marker gorod, its sixth character
  is the letter o, and normalize returns the two letters ok (U+043E U+043A) that are
  left of the word.
\<close>

theorem normalize_gorodok:
  "normalize_text [1043, 1086, 1088, 1086, 1076, 1086, 1082] = [1086, 1082]
   \<and> prefix (markers ! 1) (py_lower [1043, 1086, 1088, 1086, 1076, 1086, 1082])
   \<and> \<not> py_isspace ([1043, 1086, 1088, 1086, 1076, 1086, 1082] ! 5)"
  by (simp add: text_eval)

end
